theory Spec2Isabelle
  imports Main
begin

section \<open>Python values\<close>

text \<open>
  \<^verbatim>\<open>dashboard.py\<close> reads the output of the AWS CLI with \<^verbatim>\<open>json.loads\<close> and walks the
  result with \<^verbatim>\<open>.get\<close>, \<^verbatim>\<open>[...]\<close>, \<^verbatim>\<open>for\<close>, \<^verbatim>\<open>==\<close>, \<^verbatim>\<open>in\<close> and truth tests. The value may be
  any JSON document, so the model keeps Python's dynamic typing: a value is one of the
  six shapes below, and an operation applied to the wrong shape raises.

  Strings are byte strings (UTF-8). A dict is the list of its items in insertion order
  (\<^verbatim>\<open>json.loads\<close> yields distinct keys). Numbers with a fraction or an exponent (Python
  floats) are left out: no field that the program reads carries one.
\<close>

datatype json =
    JNull
  | JBool bool
  | JInt int
  | JStr string
  | JList "json list"
  | JObj "(string \<times> json) list"

datatype py_error = KeyError | TypeError | AttributeError

text \<open>Truth value testing: \<^verbatim>\<open>if x\<close>, \<^verbatim>\<open>not x\<close>, \<^verbatim>\<open>x or y\<close>, \<^verbatim>\<open>x and y\<close>.\<close>

fun truthy :: "json \<Rightarrow> bool" where
  "truthy JNull = False"
| "truthy (JBool b) = b"
| "truthy (JInt n) = (n \<noteq> 0)"
| "truthy (JStr s) = (s \<noteq> [])"
| "truthy (JList xs) = (xs \<noteq> [])"
| "truthy (JObj kvs) = (kvs \<noteq> [])"

text \<open>
  \<^verbatim>\<open>a == b\<close>: \<^verbatim>\<open>True == 1\<close> and \<^verbatim>\<open>False == 0\<close> hold, lists compare element by element,
  dicts compare as mappings (same keys, equal values, whatever the order).
\<close>

fun py_eq :: "json \<Rightarrow> json \<Rightarrow> bool"
  and py_eq_list :: "json list \<Rightarrow> json list \<Rightarrow> bool"
  and py_eq_items :: "(string \<times> json) list \<Rightarrow> (string \<times> json) list \<Rightarrow> bool"
  and py_eq_item :: "string \<Rightarrow> json \<Rightarrow> (string \<times> json) list \<Rightarrow> bool"
where
  "py_eq JNull JNull = True"
| "py_eq (JBool a) (JBool b) = (a = b)"
| "py_eq (JBool a) (JInt n) = ((if a then 1 else 0) = n)"
| "py_eq (JInt m) (JBool b) = (m = (if b then 1 else 0))"
| "py_eq (JInt m) (JInt n) = (m = n)"
| "py_eq (JStr s) (JStr t) = (s = t)"
| "py_eq (JList xs) (JList ys) = py_eq_list xs ys"
| "py_eq (JObj a) (JObj b) = (length a = length b \<and> py_eq_items a b)"
| "py_eq _ _ = False"
| "py_eq_list [] [] = True"
| "py_eq_list (x # xs) (y # ys) = (py_eq x y \<and> py_eq_list xs ys)"
| "py_eq_list _ _ = False"
| "py_eq_items [] b = True"
| "py_eq_items ((k, v) # a) b = (py_eq_item k v b \<and> py_eq_items a b)"
| "py_eq_item k v [] = False"
| "py_eq_item k v ((k', v') # b) = (if k = k' then py_eq v v' else py_eq_item k v b)"

text \<open>\<^verbatim>\<open>x in xs\<close> for a list \<^verbatim>\<open>xs\<close>.\<close>

definition py_in :: "json \<Rightarrow> json list \<Rightarrow> bool" where
  "py_in x xs = list_ex (\<lambda>e. py_eq e x) xs"

text \<open>\<^verbatim>\<open>d.get(k, default)\<close>: only a dict has the method.\<close>

fun dict_get :: "json \<Rightarrow> string \<Rightarrow> json \<Rightarrow> py_error + json" where
  "dict_get (JObj kvs) k d = Inr (case map_of kvs k of None \<Rightarrow> d | Some v \<Rightarrow> v)"
| "dict_get _ k d = Inl AttributeError"

text \<open>\<^verbatim>\<open>d[k]\<close> with a string \<^verbatim>\<open>k\<close>: KeyError on a dict without the key, TypeError on
  every other shape (a list or a string wants an integer index, the rest cannot be
  subscripted).\<close>

fun subscript :: "json \<Rightarrow> string \<Rightarrow> py_error + json" where
  "subscript (JObj kvs) k = (case map_of kvs k of None \<Rightarrow> Inl KeyError | Some v \<Rightarrow> Inr v)"
| "subscript _ k = Inl TypeError"

text \<open>\<^verbatim>\<open>for x in v\<close>: the elements of a list, the keys of a dict, the characters of a
  string; nothing else can be iterated.\<close>

fun py_iter :: "json \<Rightarrow> py_error + json list" where
  "py_iter (JList xs) = Inr xs"
| "py_iter (JObj kvs) = Inr (map (\<lambda>kv. JStr (fst kv)) kvs)"
| "py_iter (JStr s) = Inr (map (\<lambda>c. JStr [c]) s)"
| "py_iter _ = Inl TypeError"

text \<open>A \<^verbatim>\<open>for\<close> loop over a list, threading the variables that the body assigns; an
  exception raised by the body ends the loop.\<close>

fun for_loop :: "('a \<Rightarrow> 's \<Rightarrow> py_error + 's) \<Rightarrow> 'a list \<Rightarrow> 's \<Rightarrow> py_error + 's" where
  "for_loop body [] s = Inr s"
| "for_loop body (x # xs) s =
     (case body x s of Inl e \<Rightarrow> Inl e | Inr s' \<Rightarrow> for_loop body xs s')"

subsection \<open>Strings\<close>

text \<open>\<^verbatim>\<open>s.lower()\<close> on the ASCII letters; bytes of other characters stay as they are.\<close>

definition lower_char :: "char \<Rightarrow> char" where
  "lower_char c =
     (case map_of (zip ''ABCDEFGHIJKLMNOPQRSTUVWXYZ'' ''abcdefghijklmnopqrstuvwxyz'') c of
        Some l \<Rightarrow> l
      | None \<Rightarrow> c)"

definition str_lower :: "string \<Rightarrow> string" where
  "str_lower s = map lower_char s"

text \<open>\<^verbatim>\<open>name.lower()\<close> where \<^verbatim>\<open>name\<close> is any value: only a string has the method.\<close>

fun py_lower :: "json \<Rightarrow> py_error + string" where
  "py_lower (JStr s) = Inr (str_lower s)"
| "py_lower _ = Inl AttributeError"

text \<open>\<^verbatim>\<open>needle in hay\<close> for two strings.\<close>

fun str_startswith :: "string \<Rightarrow> string \<Rightarrow> bool" where
  "str_startswith [] hay = True"
| "str_startswith (c # cs) [] = False"
| "str_startswith (c # cs) (h # hs) = (c = h \<and> str_startswith cs hs)"

fun str_contains :: "string \<Rightarrow> string \<Rightarrow> bool" where
  "str_contains needle [] = (needle = [])"
| "str_contains needle (h # hs) = (str_startswith needle (h # hs) \<or> str_contains needle hs)"

text \<open>\<^verbatim>\<open>str(n)\<close> for an int: decimal digits, with a minus sign below zero.\<close>

fun digits :: "nat \<Rightarrow> string" where
  "digits n =
     (if n < 10 then [''0123456789'' ! n]
      else digits (n div 10) @ [''0123456789'' ! (n mod 10)])"

declare digits.simps [simp del]

definition str_of_int :: "int \<Rightarrow> string" where
  "str_of_int i = (if i < 0 then CHR ''-'' # digits (nat (- i)) else digits (nat i))"

text \<open>\<^verbatim>\<open>str(v)\<close>. For a list or a dict it is Python's \<^verbatim>\<open>repr\<close>, which is a built-in outside
  this program: the model takes it as the parameter \<open>repr\<close>.\<close>

fun py_str :: "(json \<Rightarrow> string) \<Rightarrow> json \<Rightarrow> string" where
  "py_str repr JNull = ''None''"
| "py_str repr (JBool b) = (if b then ''True'' else ''False'')"
| "py_str repr (JInt n) = str_of_int n"
| "py_str repr (JStr s) = s"
| "py_str repr v = repr v"

subsection \<open>The dicts of lists that the program fills\<close>

text \<open>\<^verbatim>\<open>subnets\<close> and \<^verbatim>\<open>instances\<close> are dicts from a tier name to a list of entries.
  \<^verbatim>\<open>tier in subnets\<close> hashes \<^verbatim>\<open>tier\<close>, which a list or a dict refuses.\<close>

fun dict_has :: "(string \<rightharpoonup> 'a) \<Rightarrow> json \<Rightarrow> py_error + bool" where
  "dict_has d (JStr s) = Inr (d s \<noteq> None)"
| "dict_has d (JList xs) = Inl TypeError"
| "dict_has d (JObj kvs) = Inl TypeError"
| "dict_has d v = Inr False"

text \<open>\<^verbatim>\<open>d[k].append(x)\<close>.\<close>

fun dict_append :: "(string \<rightharpoonup> 'a list) \<Rightarrow> json \<Rightarrow> 'a \<Rightarrow> py_error + (string \<rightharpoonup> 'a list)" where
  "dict_append d (JStr s) x =
     (case d s of None \<Rightarrow> Inl KeyError | Some l \<Rightarrow> Inr (d(s \<mapsto> l @ [x])))"
| "dict_append d (JList xs) x = Inl TypeError"
| "dict_append d (JObj kvs) x = Inl TypeError"
| "dict_append d v x = Inl KeyError"

text \<open>\<^verbatim>\<open>d[k]\<close> on such a dict, with a literal key.\<close>

definition dict_index :: "(string \<rightharpoonup> 'a) \<Rightarrow> string \<Rightarrow> py_error + 'a" where
  "dict_index d k = (case d k of None \<Rightarrow> Inl KeyError | Some v \<Rightarrow> Inr v)"

section \<open>The query adapter: \<^verbatim>\<open>run_aws_command\<close>\<close>

text \<open>
  What lies outside the program is a parameter of the model:
  \<^item> \<open>USE_AWS\<close>, the global mode flag;
  \<^item> \<open>subprocess_run cmd timeout\<close>, the outcome of \<^verbatim>\<open>subprocess.run\<close>: the call raises
    (\<^verbatim>\<open>TimeoutExpired\<close> after the timeout, or another exception such as a missing
    executable or undecodable output), or the process completes with a return code and
    its standard output;
  \<^item> \<open>json_loads\<close>, the parser: \<open>None\<close> where \<^verbatim>\<open>json.loads\<close> raises on a malformed text;
  \<^item> \<open>py_repr\<close>, see \<^const>\<open>py_str\<close>.
\<close>

datatype run_result = TimeoutExpired | RunError | CompletedProcess int string

record world =
  USE_AWS :: bool
  subprocess_run :: "string list \<Rightarrow> nat \<Rightarrow> run_result"
  json_loads :: "string \<Rightarrow> json option"
  py_repr :: "json \<Rightarrow> string"

definition LOCALSTACK_ENDPOINT :: string where
  "LOCALSTACK_ENDPOINT = ''http://localhost:4566''"


text \<open>Lines 42 to 47: the command line.\<close>

definition aws_cmd :: "world \<Rightarrow> string \<Rightarrow> string \<Rightarrow> string list option \<Rightarrow> string list" where
  "aws_cmd w service action extra_args =
     [''aws'']
     @ (if \<not> USE_AWS w then [''--endpoint-url'', LOCALSTACK_ENDPOINT] else [])
     @ [service, action, ''--output'', ''json'']
     @ (case extra_args of Some (a # as) \<Rightarrow> a # as | _ \<Rightarrow> [])"

text \<open>Lines 49 to 55. The result is a Python value: \<^verbatim>\<open>None\<close> (\<^const>\<open>JNull\<close>) where
  \<^verbatim>\<open>subprocess.run\<close> or \<^verbatim>\<open>json.loads\<close> raises (the \<^verbatim>\<open>except Exception\<close> clause) and on
  a return code other than 0, \<^verbatim>\<open>{}\<close> on an empty output, the parsed document otherwise.\<close>

definition run_aws_command :: "world \<Rightarrow> string \<Rightarrow> string \<Rightarrow> string list option \<Rightarrow> json" where
  "run_aws_command w service action extra_args =
     (let cmd = aws_cmd w service action extra_args
      in case subprocess_run w cmd 15 of
           CompletedProcess returncode stdout \<Rightarrow>
             if returncode = 0 then
               (if stdout \<noteq> [] then
                  (case json_loads w stdout of Some v \<Rightarrow> v | None \<Rightarrow> JNull)
                else JObj [])
             else JNull
         | _ \<Rightarrow> JNull)"

section \<open>Tag loops\<close>

text \<open>
  \<^verbatim>\<open>
  for tag in vpc.get("Tags", []):
      if tag["Key"] == "Name":
          name = tag["Value"]
  \<close>
  in \<^verbatim>\<open>get_vpcs\<close> and \<^verbatim>\<open>get_internet_gateways\<close>: the loop variable is \<^verbatim>\<open>name\<close>.
\<close>

definition name_tag_body :: "json \<Rightarrow> json \<Rightarrow> py_error + json" where
  "name_tag_body tag name =
     (case subscript tag ''Key'' of
        Inl e \<Rightarrow> Inl e
      | Inr k \<Rightarrow> if py_eq k (JStr ''Name'') then subscript tag ''Value'' else Inr name)"

text \<open>
  \<^verbatim>\<open>
  for tag in subnet.get("Tags", []):
      if tag["Key"] == "Name":
          name = tag["Value"]
      if tag["Key"] == "Tier":
          tier = tag["Value"]
  \<close>
  in \<^verbatim>\<open>get_subnets\<close> and \<^verbatim>\<open>get_instances\<close>: the loop variables are \<^verbatim>\<open>(name, tier)\<close>.
\<close>

definition name_tier_tag_body :: "json \<Rightarrow> json \<times> json \<Rightarrow> py_error + json \<times> json" where
  "name_tier_tag_body tag nt =
     (case subscript tag ''Key'' of
        Inl e \<Rightarrow> Inl e
      | Inr k1 \<Rightarrow>
          (case (if py_eq k1 (JStr ''Name'') then subscript tag ''Value'' else Inr (fst nt)) of
             Inl e \<Rightarrow> Inl e
           | Inr name \<Rightarrow>
               (case subscript tag ''Key'' of
                  Inl e \<Rightarrow> Inl e
                | Inr k2 \<Rightarrow>
                    (case (if py_eq k2 (JStr ''Tier'') then subscript tag ''Value''
                           else Inr (snd nt)) of
                       Inl e \<Rightarrow> Inl e
                     | Inr tier \<Rightarrow> Inr (name, tier)))))"

text \<open>\<^verbatim>\<open>for tag in x.get("Tags", []): ...\<close> as a whole, from the initial variables.\<close>

definition tags_loop :: "(json \<Rightarrow> 's \<Rightarrow> py_error + 's) \<Rightarrow> json \<Rightarrow> 's \<Rightarrow> py_error + 's" where
  "tags_loop body x init =
     (case dict_get x ''Tags'' (JList []) of
        Inl e \<Rightarrow> Inl e
      | Inr ts \<Rightarrow>
          (case py_iter ts of
             Inl e \<Rightarrow> Inl e
           | Inr tags \<Rightarrow> for_loop body tags init))"

text \<open>\<^verbatim>\<open>vpc_ids and v not in vpc_ids\<close>, once \<^verbatim>\<open>v\<close> is evaluated; \<^verbatim>\<open>vpc_ids\<close> is \<^verbatim>\<open>None\<close> or a
  list.\<close>

fun ids_truthy :: "json list option \<Rightarrow> bool" where
  "ids_truthy None = False"
| "ids_truthy (Some ids) = (ids \<noteq> [])"

fun not_in_ids :: "json \<Rightarrow> json list option \<Rightarrow> bool" where
  "not_in_ids v None = True"
| "not_in_ids v (Some ids) = (\<not> py_in v ids)"

text \<open>The test comes first: with \<^verbatim>\<open>vpc_ids\<close> empty or \<^verbatim>\<open>None\<close> the operand \<^verbatim>\<open>v\<close> is not
  evaluated, so an exception it would raise does not happen.\<close>

definition out_of_scope :: "json list option \<Rightarrow> py_error + json \<Rightarrow> py_error + bool" where
  "out_of_scope vpc_ids v =
     (if ids_truthy vpc_ids then
        (case v of Inl e \<Rightarrow> Inl e | Inr x \<Rightarrow> Inr (not_in_ids x vpc_ids))
      else Inr False)"

section \<open>\<^verbatim>\<open>get_vpcs\<close>\<close>

record vpc_entry =
  vpc_entry_id :: json
  vpc_entry_cidr :: json
  vpc_entry_name :: json

text \<open>The body of \<^verbatim>\<open>for vpc in data.get("Vpcs", [])\<close>; the loop variable is the list
  \<^verbatim>\<open>vpcs\<close>.\<close>

definition get_vpcs_body :: "json \<Rightarrow> vpc_entry list \<Rightarrow> py_error + vpc_entry list" where
  "get_vpcs_body vpc vpcs =
     (case dict_get vpc ''IsDefault'' (JBool False) of
        Inl e \<Rightarrow> Inl e
      | Inr is_default \<Rightarrow>
          if truthy is_default then Inr vpcs
          else
            (case tags_loop name_tag_body vpc (JStr []) of
               Inl e \<Rightarrow> Inl e
             | Inr name \<Rightarrow>
                 if truthy name then
                   (case subscript vpc ''VpcId'' of
                      Inl e \<Rightarrow> Inl e
                    | Inr i \<Rightarrow>
                        (case subscript vpc ''CidrBlock'' of
                           Inl e \<Rightarrow> Inl e
                         | Inr c \<Rightarrow>
                             Inr (vpcs @ [\<lparr>vpc_entry_id = i, vpc_entry_cidr = c, vpc_entry_name = name\<rparr>])))
                 else Inr vpcs))"

definition get_vpcs :: "world \<Rightarrow> py_error + vpc_entry list" where
  "get_vpcs w =
     (let data = run_aws_command w ''ec2'' ''describe-vpcs'' None in
      if \<not> truthy data then Inr []
      else
        (case dict_get data ''Vpcs'' (JList []) of
           Inl e \<Rightarrow> Inl e
         | Inr l \<Rightarrow>
             (case py_iter l of
                Inl e \<Rightarrow> Inl e
              | Inr items \<Rightarrow> for_loop get_vpcs_body items [])))"

section \<open>\<^verbatim>\<open>get_subnets\<close>\<close>

record subnet_entry =
  subnet_id :: json
  subnet_cidr :: json
  subnet_az :: json
  subnet_name :: json

definition subnets_init :: "string \<rightharpoonup> subnet_entry list" where
  "subnets_init = [''public'' \<mapsto> [], ''app'' \<mapsto> [], ''database'' \<mapsto> []]"

text \<open>Lines 103 to 106: the name overrides the tier.\<close>

definition subnet_tier :: "string \<Rightarrow> json \<Rightarrow> json" where
  "subnet_tier lowered tier =
     (if str_contains ''public'' lowered then JStr ''public''
      else if str_contains ''db'' lowered \<or> str_contains ''database'' lowered
        then JStr ''database''
      else tier)"

definition get_subnets_body ::
  "json list option \<Rightarrow> json \<Rightarrow> (string \<rightharpoonup> subnet_entry list)
    \<Rightarrow> py_error + (string \<rightharpoonup> subnet_entry list)" where
  "get_subnets_body vpc_ids subnet subnets =
     (case out_of_scope vpc_ids (subscript subnet ''VpcId'') of
        Inl e \<Rightarrow> Inl e
      | Inr True \<Rightarrow> Inr subnets
      | Inr False \<Rightarrow>
          (case tags_loop name_tier_tag_body subnet (JStr [], JStr ''app'') of
             Inl e \<Rightarrow> Inl e
           | Inr (name, tier0) \<Rightarrow>
               if \<not> truthy name then Inr subnets
               else
                 (case py_lower name of
                    Inl e \<Rightarrow> Inl e
                  | Inr lowered \<Rightarrow>
                      (let tier = subnet_tier lowered tier0 in
                       case dict_has subnets tier of
                         Inl e \<Rightarrow> Inl e
                       | Inr False \<Rightarrow> Inr subnets
                       | Inr True \<Rightarrow>
                           (case subscript subnet ''SubnetId'' of
                              Inl e \<Rightarrow> Inl e
                            | Inr i \<Rightarrow>
                                (case subscript subnet ''CidrBlock'' of
                                   Inl e \<Rightarrow> Inl e
                                 | Inr c \<Rightarrow>
                                     (case dict_get subnet ''AvailabilityZone'' (JStr []) of
                                        Inl e \<Rightarrow> Inl e
                                      | Inr az \<Rightarrow>
                                          dict_append subnets tier
                                            \<lparr>subnet_id = i, subnet_cidr = c, subnet_az = az,
                                             subnet_name = name\<rparr>)))))))"

definition get_subnets ::
  "world \<Rightarrow> json list option \<Rightarrow> py_error + (string \<rightharpoonup> subnet_entry list)" where
  "get_subnets w vpc_ids =
     (let data = run_aws_command w ''ec2'' ''describe-subnets'' None in
      if \<not> truthy data then Inr subnets_init
      else
        (case dict_get data ''Subnets'' (JList []) of
           Inl e \<Rightarrow> Inl e
         | Inr l \<Rightarrow>
             (case py_iter l of
                Inl e \<Rightarrow> Inl e
              | Inr items \<Rightarrow> for_loop (get_subnets_body vpc_ids) items subnets_init)))"

section \<open>\<^verbatim>\<open>get_instances\<close>\<close>

record instance_entry =
  instance_id :: json
  instance_type :: json
  instance_state :: json
  instance_private_ip :: json
  instance_name :: json

definition instances_init :: "string \<rightharpoonup> instance_entry list" where
  "instances_init = [''web'' \<mapsto> [], ''app'' \<mapsto> []]"

text \<open>Lines 138 and 139.\<close>

definition instance_tier :: "string \<Rightarrow> json \<Rightarrow> json" where
  "instance_tier lowered tier = (if str_contains ''app'' lowered then JStr ''app'' else tier)"

text \<open>\<^verbatim>\<open>instance.get("State", {}).get("Name", "unknown")\<close>.\<close>

definition instance_state_name :: "json \<Rightarrow> py_error + json" where
  "instance_state_name instance =
     (case dict_get instance ''State'' (JObj []) of
        Inl e \<Rightarrow> Inl e
      | Inr st \<Rightarrow> dict_get st ''Name'' (JStr ''unknown''))"

text \<open>The body of the inner loop, \<^verbatim>\<open>for instance in reservation.get("Instances", [])\<close>.\<close>

definition get_instances_body ::
  "json list option \<Rightarrow> json \<Rightarrow> (string \<rightharpoonup> instance_entry list)
    \<Rightarrow> py_error + (string \<rightharpoonup> instance_entry list)" where
  "get_instances_body vpc_ids instance instances =
     (case out_of_scope vpc_ids (dict_get instance ''VpcId'' JNull) of
        Inl e \<Rightarrow> Inl e
      | Inr True \<Rightarrow> Inr instances
      | Inr False \<Rightarrow>
          (case tags_loop name_tier_tag_body instance (JStr [], JStr ''web'') of
             Inl e \<Rightarrow> Inl e
           | Inr (name, tier0) \<Rightarrow>
               (case py_lower name of
                  Inl e \<Rightarrow> Inl e
                | Inr lowered \<Rightarrow>
                    (let tier = instance_tier lowered tier0 in
                     case dict_has instances tier of
                       Inl e \<Rightarrow> Inl e
                     | Inr False \<Rightarrow> Inr instances
                     | Inr True \<Rightarrow>
                         (case subscript instance ''InstanceId'' of
                            Inl e \<Rightarrow> Inl e
                          | Inr i \<Rightarrow>
                              (case dict_get instance ''InstanceType'' (JStr []) of
                                 Inl e \<Rightarrow> Inl e
                               | Inr t \<Rightarrow>
                                   (case instance_state_name instance of
                                      Inl e \<Rightarrow> Inl e
                                    | Inr st \<Rightarrow>
                                        (case dict_get instance ''PrivateIpAddress'' (JStr []) of
                                           Inl e \<Rightarrow> Inl e
                                         | Inr ip \<Rightarrow>
                                             dict_append instances tier
                                               \<lparr>instance_id = i, instance_type = t,
                                                instance_state = st, instance_private_ip = ip,
                                                instance_name =
                                                  (if truthy name then name
                                                   else JStr ''(unnamed)'')\<rparr>))))))))"

text \<open>The body of the outer loop, \<^verbatim>\<open>for reservation in data.get("Reservations", [])\<close>.\<close>

definition get_instances_reservation ::
  "json list option \<Rightarrow> json \<Rightarrow> (string \<rightharpoonup> instance_entry list)
    \<Rightarrow> py_error + (string \<rightharpoonup> instance_entry list)" where
  "get_instances_reservation vpc_ids reservation instances =
     (case dict_get reservation ''Instances'' (JList []) of
        Inl e \<Rightarrow> Inl e
      | Inr l \<Rightarrow>
          (case py_iter l of
             Inl e \<Rightarrow> Inl e
           | Inr items \<Rightarrow> for_loop (get_instances_body vpc_ids) items instances))"

definition get_instances ::
  "world \<Rightarrow> json list option \<Rightarrow> py_error + (string \<rightharpoonup> instance_entry list)" where
  "get_instances w vpc_ids =
     (let data = run_aws_command w ''ec2'' ''describe-instances'' None in
      if \<not> truthy data then Inr instances_init
      else
        (case dict_get data ''Reservations'' (JList []) of
           Inl e \<Rightarrow> Inl e
         | Inr l \<Rightarrow>
             (case py_iter l of
                Inl e \<Rightarrow> Inl e
              | Inr reservations \<Rightarrow>
                  for_loop (get_instances_reservation vpc_ids) reservations instances_init)))"

section \<open>\<^verbatim>\<open>get_security_groups\<close>\<close>

record sg_entry =
  sg_id :: json
  sg_name :: json
  sg_ports :: "string list"

text \<open>The body of \<^verbatim>\<open>for rule in sg.get("IpPermissions", [])\<close>; the loop variable is the
  list \<^verbatim>\<open>ports\<close>.\<close>

definition get_security_groups_rule ::
  "(json \<Rightarrow> string) \<Rightarrow> json \<Rightarrow> string list \<Rightarrow> py_error + string list" where
  "get_security_groups_rule repr rule ports =
     (case dict_get rule ''FromPort'' JNull of
        Inl e \<Rightarrow> Inl e
      | Inr port \<Rightarrow> if truthy port then Inr (ports @ [py_str repr port]) else Inr ports)"

definition get_security_groups_body ::
  "(json \<Rightarrow> string) \<Rightarrow> json list option \<Rightarrow> json \<Rightarrow> sg_entry list
    \<Rightarrow> py_error + sg_entry list" where
  "get_security_groups_body repr vpc_ids sg sgs =
     (case out_of_scope vpc_ids (dict_get sg ''VpcId'' JNull) of
        Inl e \<Rightarrow> Inl e
      | Inr True \<Rightarrow> Inr sgs
      | Inr False \<Rightarrow>
          (case dict_get sg ''GroupName'' JNull of
             Inl e \<Rightarrow> Inl e
           | Inr gn \<Rightarrow>
               if py_eq gn (JStr ''default'') then Inr sgs
               else
                 (case dict_get sg ''IpPermissions'' (JList []) of
                    Inl e \<Rightarrow> Inl e
                  | Inr l \<Rightarrow>
                      (case py_iter l of
                         Inl e \<Rightarrow> Inl e
                       | Inr rules \<Rightarrow>
                           (case for_loop (get_security_groups_rule repr) rules [] of
                              Inl e \<Rightarrow> Inl e
                            | Inr ports \<Rightarrow>
                                (case subscript sg ''GroupId'' of
                                   Inl e \<Rightarrow> Inl e
                                 | Inr i \<Rightarrow>
                                     (case dict_get sg ''GroupName'' (JStr []) of
                                        Inl e \<Rightarrow> Inl e
                                      | Inr n \<Rightarrow>
                                          Inr (sgs @ [\<lparr>sg_id = i, sg_name = n,
                                                       sg_ports = ports\<rparr>]))))))))"

definition get_security_groups :: "world \<Rightarrow> json list option \<Rightarrow> py_error + sg_entry list" where
  "get_security_groups w vpc_ids =
     (let data = run_aws_command w ''ec2'' ''describe-security-groups'' None in
      if \<not> truthy data then Inr []
      else
        (case dict_get data ''SecurityGroups'' (JList []) of
           Inl e \<Rightarrow> Inl e
         | Inr l \<Rightarrow>
             (case py_iter l of
                Inl e \<Rightarrow> Inl e
              | Inr items \<Rightarrow>
                  for_loop (get_security_groups_body (py_repr w) vpc_ids) items [])))"

section \<open>\<^verbatim>\<open>get_internet_gateways\<close>\<close>

record igw_entry =
  igw_id :: json
  igw_name :: json

text \<open>The body of \<^verbatim>\<open>for att in igw.get("Attachments", [])\<close>; the loop variable is
  \<^verbatim>\<open>vpc_id\<close>, overwritten by every attachment.\<close>

definition get_internet_gateways_att :: "json \<Rightarrow> json \<Rightarrow> py_error + json" where
  "get_internet_gateways_att att vpc_id = dict_get att ''VpcId'' (JStr [])"

text \<open>Lines 187 to 189: the owning VPC of a gateway.\<close>

definition get_internet_gateways_vpc_id :: "json \<Rightarrow> py_error + json" where
  "get_internet_gateways_vpc_id igw =
     (case dict_get igw ''Attachments'' (JList []) of
        Inl e \<Rightarrow> Inl e
      | Inr l \<Rightarrow>
          (case py_iter l of
             Inl e \<Rightarrow> Inl e
           | Inr atts \<Rightarrow> for_loop get_internet_gateways_att atts (JStr [])))"

definition get_internet_gateways_body ::
  "json list option \<Rightarrow> json \<Rightarrow> igw_entry list \<Rightarrow> py_error + igw_entry list" where
  "get_internet_gateways_body vpc_ids igw igws =
     (case get_internet_gateways_vpc_id igw of
        Inl e \<Rightarrow> Inl e
      | Inr vpc_id \<Rightarrow>
          (case out_of_scope vpc_ids (Inr vpc_id) of
             Inl e \<Rightarrow> Inl e
           | Inr True \<Rightarrow> Inr igws
           | Inr False \<Rightarrow>
               (case tags_loop name_tag_body igw (JStr []) of
                  Inl e \<Rightarrow> Inl e
                | Inr name \<Rightarrow>
                    if truthy name \<or> truthy vpc_id then
                      (case subscript igw ''InternetGatewayId'' of
                         Inl e \<Rightarrow> Inl e
                       | Inr i \<Rightarrow> Inr (igws @ [\<lparr>igw_id = i, igw_name = name\<rparr>]))
                    else Inr igws)))"

definition get_internet_gateways :: "world \<Rightarrow> json list option \<Rightarrow> py_error + igw_entry list" where
  "get_internet_gateways w vpc_ids =
     (let data = run_aws_command w ''ec2'' ''describe-internet-gateways'' None in
      if \<not> truthy data then Inr []
      else
        (case dict_get data ''InternetGateways'' (JList []) of
           Inl e \<Rightarrow> Inl e
         | Inr l \<Rightarrow>
             (case py_iter l of
                Inl e \<Rightarrow> Inl e
              | Inr items \<Rightarrow> for_loop (get_internet_gateways_body vpc_ids) items [])))"

section \<open>\<^verbatim>\<open>generate_html\<close>: the values behind the page\<close>

text \<open>
  Lines 203 to 213 and 243, 244 of \<^verbatim>\<open>generate_html\<close> compute the values that the page
  template then prints; the template itself (string formatting) is not modelled. The
  five queries run in the order of the source, and an exception of one of them ends the
  function.
\<close>

record snapshot =
  snap_vpcs :: "vpc_entry list"
  snap_vpc_ids :: "json list option"
  snap_subnets :: "string \<rightharpoonup> subnet_entry list"
  snap_instances :: "string \<rightharpoonup> instance_entry list"
  snap_security_groups :: "sg_entry list"
  snap_igws :: "igw_entry list"
  total_subnets :: nat
  total_instances :: nat
  snap_vpc :: vpc_entry
  snap_igw :: igw_entry

text \<open>\<^verbatim>\<open>vpc_ids = [v["id"] for v in vpcs] if vpcs else None\<close>.\<close>

definition scope_ids :: "vpc_entry list \<Rightarrow> json list option" where
  "scope_ids vpcs = (if vpcs \<noteq> [] then Some (map vpc_entry_id vpcs) else None)"

definition generate_html_snapshot :: "world \<Rightarrow> py_error + snapshot" where
  "generate_html_snapshot w =
     (case get_vpcs w of
        Inl e \<Rightarrow> Inl e
      | Inr vpcs \<Rightarrow>
          (let vpc_ids = scope_ids vpcs in
           case get_subnets w vpc_ids of
             Inl e \<Rightarrow> Inl e
           | Inr subnets \<Rightarrow>
               (case get_instances w vpc_ids of
                  Inl e \<Rightarrow> Inl e
                | Inr instances \<Rightarrow>
                    (case get_security_groups w vpc_ids of
                       Inl e \<Rightarrow> Inl e
                     | Inr security_groups \<Rightarrow>
                         (case get_internet_gateways w vpc_ids of
                            Inl e \<Rightarrow> Inl e
                          | Inr igws \<Rightarrow>
                              (case dict_index subnets ''public'' of
                                 Inl e \<Rightarrow> Inl e
                               | Inr sp \<Rightarrow>
                              (case dict_index subnets ''app'' of
                                 Inl e \<Rightarrow> Inl e
                               | Inr sa \<Rightarrow>
                              (case dict_index subnets ''database'' of
                                 Inl e \<Rightarrow> Inl e
                               | Inr sd \<Rightarrow>
                              (case dict_index instances ''web'' of
                                 Inl e \<Rightarrow> Inl e
                               | Inr iw \<Rightarrow>
                              (case dict_index instances ''app'' of
                                 Inl e \<Rightarrow> Inl e
                               | Inr ia \<Rightarrow>
                                   Inr \<lparr>snap_vpcs = vpcs, snap_vpc_ids = vpc_ids,
                                        snap_subnets = subnets, snap_instances = instances,
                                        snap_security_groups = security_groups,
                                        snap_igws = igws,
                                        total_subnets = length sp + length sa + length sd,
                                        total_instances = length iw + length ia,
                                        snap_vpc =
                                          (case vpcs of
                                             v # _ \<Rightarrow> v
                                           | [] \<Rightarrow> \<lparr>vpc_entry_id = JStr ''N/A'',
                                                    vpc_entry_cidr = JStr ''N/A'',
                                                    vpc_entry_name = JStr ''No VPC''\<rparr>),
                                        snap_igw =
                                          (case igws of
                                             g # _ \<Rightarrow> g
                                           | [] \<Rightarrow> \<lparr>igw_id = JStr ''N/A'',
                                                    igw_name = JStr ''No IGW''\<rparr>)\<rparr>))))))))))"

section \<open>Vocabulary of the statements\<close>

text \<open>
  A tag as the AWS CLI prints it, \<^verbatim>\<open>{"Key": k, "Value": v}\<close>; a resource whose \<^verbatim>\<open>Tags\<close> are
  the given key/value pairs, in order (no \<^verbatim>\<open>Tags\<close> attribute: no pairs); and the value
  that a tag loop keeps for a key, which is the value of the last tag with that key (the
  only one when keys are unique, as AWS has them).
\<close>

definition tag :: "string \<Rightarrow> json \<Rightarrow> json" where
  "tag k v = JObj [(''Key'', JStr k), (''Value'', v)]"

definition has_tags :: "json \<Rightarrow> (string \<times> json) list \<Rightarrow> bool" where
  "has_tags x pairs =
     (dict_get x ''Tags'' (JList []) = Inr (JList (map (\<lambda>kv. tag (fst kv) (snd kv)) pairs)))"

definition tag_value :: "(string \<times> json) list \<Rightarrow> string \<Rightarrow> json option" where
  "tag_value pairs k = map_of (rev pairs) k"

text \<open>The Name tag does not resolve: there is none, or its value is empty.\<close>

definition lacks_name :: "json \<Rightarrow> (string \<times> json) list \<Rightarrow> bool" where
  "lacks_name x pairs =
     (has_tags x pairs
      \<and> (case tag_value pairs ''Name'' of None \<Rightarrow> True | Some v \<Rightarrow> \<not> truthy v))"

text \<open>The describe call \<open>action\<close> succeeds and its document lists \<open>items\<close> under \<open>key\<close>.\<close>

definition describes :: "world \<Rightarrow> string \<Rightarrow> string \<Rightarrow> json list \<Rightarrow> bool" where
  "describes w action key items =
     (case run_aws_command w ''ec2'' action None of
        JObj kvs \<Rightarrow> map_of kvs key = Some (JList items)
      | _ \<Rightarrow> False)"

text \<open>A VPC record marked as the default one.\<close>

definition is_default :: "json \<Rightarrow> bool" where
  "is_default vpc =
     (case dict_get vpc ''IsDefault'' (JBool False) of Inr d \<Rightarrow> truthy d | Inl e \<Rightarrow> False)"

text \<open>The entry \<open>e\<close> of the output was made from the record \<open>vpc\<close>: the record is not the
  default VPC, its tag loop ends with the entry's name, which is not empty, and the
  entry carries the record's identifier and CIDR block.\<close>

definition vpc_source :: "json \<Rightarrow> vpc_entry \<Rightarrow> bool" where
  "vpc_source vpc e =
     (\<not> is_default vpc \<and> truthy (vpc_entry_name e)
      \<and> tags_loop name_tag_body vpc (JStr []) = Inr (vpc_entry_name e)
      \<and> subscript vpc ''VpcId'' = Inr (vpc_entry_id e)
      \<and> subscript vpc ''CidrBlock'' = Inr (vpc_entry_cidr e))"

text \<open>The record passes the scope filter: \<^verbatim>\<open>vpc_ids and v not in vpc_ids\<close> is false, so the
  scope is unrestricted or the record's VPC identifier is one of \<^verbatim>\<open>vpc_ids\<close>.\<close>

definition in_scope :: "json list option \<Rightarrow> py_error + json \<Rightarrow> bool" where
  "in_scope vpc_ids v = (out_of_scope vpc_ids v = Inr False)"

text \<open>A value that can be looked up in a dict: anything but a list or a dict.\<close>

definition hashable :: "json \<Rightarrow> bool" where
  "hashable v = (case v of JList xs \<Rightarrow> False | JObj kvs \<Rightarrow> False | _ \<Rightarrow> True)"

text \<open>A resolved tier that names none of the buckets.\<close>

definition unmatched :: "json \<Rightarrow> string set \<Rightarrow> bool" where
  "unmatched tier buckets = (hashable tier \<and> tier \<notin> JStr ` buckets)"

text \<open>
  The tier of a subnet as the specification words it: start from the Tier tag if there
  is one, from \<^verbatim>\<open>"app"\<close> otherwise; a name that contains "public", whatever the case of its
  letters, forces \<^verbatim>\<open>"public"\<close>; else a name that contains "db" or "database" forces
  \<^verbatim>\<open>"database"\<close>.
\<close>

definition spec_subnet_tier :: "string \<Rightarrow> json option \<Rightarrow> json" where
  "spec_subnet_tier name tier_tag =
     (if str_contains ''public'' (str_lower name) then JStr ''public''
      else if str_contains ''db'' (str_lower name) \<or> str_contains ''database'' (str_lower name)
        then JStr ''database''
      else (case tier_tag of Some v \<Rightarrow> v | None \<Rightarrow> JStr ''app''))"

text \<open>The tier of an instance as the specification words it: the Tier tag, \<^verbatim>\<open>"web"\<close>
  without one; a name that contains "app", whatever the case, forces \<^verbatim>\<open>"app"\<close>.\<close>

definition spec_instance_tier :: "string \<Rightarrow> json option \<Rightarrow> json" where
  "spec_instance_tier name tier_tag =
     (if str_contains ''app'' (str_lower name) then JStr ''app''
      else (case tier_tag of Some v \<Rightarrow> v | None \<Rightarrow> JStr ''web''))"

text \<open>The display name of an instance: \<^verbatim>\<open>name or "(unnamed)"\<close>.\<close>

definition display_name :: "string \<Rightarrow> json" where
  "display_name name = (if name \<noteq> [] then JStr name else JStr ''(unnamed)'')"

text \<open>The entry \<open>e\<close> carries the attributes of the record, as the loop body reads them
  (the name apart).\<close>

definition subnet_fields :: "json \<Rightarrow> subnet_entry \<Rightarrow> bool" where
  "subnet_fields subnet e =
     (subscript subnet ''SubnetId'' = Inr (subnet_id e)
      \<and> subscript subnet ''CidrBlock'' = Inr (subnet_cidr e)
      \<and> dict_get subnet ''AvailabilityZone'' (JStr []) = Inr (subnet_az e))"

definition instance_fields :: "json \<Rightarrow> instance_entry \<Rightarrow> bool" where
  "instance_fields instance e =
     (subscript instance ''InstanceId'' = Inr (instance_id e)
      \<and> dict_get instance ''InstanceType'' (JStr []) = Inr (instance_type e)
      \<and> instance_state_name instance = Inr (instance_state e)
      \<and> dict_get instance ''PrivateIpAddress'' (JStr []) = Inr (instance_private_ip e))"

text \<open>The reservation \<open>r\<close> lists the instance records \<open>items\<close>.\<close>

definition reservation_lists :: "json \<Rightarrow> json list \<Rightarrow> bool" where
  "reservation_lists r items = (dict_get r ''Instances'' (JList []) = Inr (JList items))"

text \<open>A dict of lists \<open>d'\<close> has the keys of \<open>d\<close> and extends each of its lists.\<close>

definition grows :: "('k \<rightharpoonup> 'a list) \<Rightarrow> ('k \<rightharpoonup> 'a list) \<Rightarrow> bool" where
  "grows d d' =
     (\<forall>k. case d k of None \<Rightarrow> d' k = None | Some l \<Rightarrow> (\<exists>l'. d' k = Some (l @ l')))"

subsection \<open>Example worlds\<close>

text \<open>
  The world \<open>world_of docs\<close> runs against LocalStack. A describe call whose action is
  listed in \<open>docs\<close> completes with return code 0 and prints a text that \<^verbatim>\<open>json.loads\<close>
  parses to the listed document (the text is written as the action's name); every
  other call runs into the timeout.
\<close>

definition world_of :: "(string \<times> json) list \<Rightarrow> world" where
  "world_of docs =
     \<lparr>USE_AWS = False,
      subprocess_run = (\<lambda>cmd timeout.
        if length cmd = 7 \<and> map_of docs (cmd ! 4) \<noteq> None then CompletedProcess 0 (cmd ! 4)
        else TimeoutExpired),
      json_loads = map_of docs,
      py_repr = (\<lambda>v. [])\<rparr>"

definition vpcs_doc :: "json list \<Rightarrow> string \<times> json" where
  "vpcs_doc items = (''describe-vpcs'', JObj [(''Vpcs'', JList items)])"

definition default_vpc :: json where
  "default_vpc =
     JObj [(''VpcId'', JStr ''vpc-0''), (''CidrBlock'', JStr ''172.31.0.0/16''),
           (''IsDefault'', JBool True), (''Tags'', JList [tag ''Name'' (JStr ''default-vpc'')])]"

definition main_vpc :: json where
  "main_vpc =
     JObj [(''VpcId'', JStr ''vpc-1''), (''CidrBlock'', JStr ''10.0.0.0/16''),
           (''IsDefault'', JBool False), (''Tags'', JList [tag ''Name'' (JStr ''main-vpc'')])]"

definition unnamed_vpc :: json where
  "unnamed_vpc =
     JObj [(''VpcId'', JStr ''vpc-2''), (''CidrBlock'', JStr ''10.1.0.0/16''),
           (''IsDefault'', JBool False), (''Tags'', JList [tag ''Env'' (JStr ''dev'')])]"

definition main_vpc_entry :: vpc_entry where
  "main_vpc_entry =
     \<lparr>vpc_entry_id = JStr ''vpc-1'', vpc_entry_cidr = JStr ''10.0.0.0/16'',
      vpc_entry_name = JStr ''main-vpc''\<rparr>"

definition subnets_doc :: "json list \<Rightarrow> string \<times> json" where
  "subnets_doc items = (''describe-subnets'', JObj [(''Subnets'', JList items)])"

definition db_subnet :: json where
  "db_subnet =
     JObj [(''SubnetId'', JStr ''subnet-1''), (''VpcId'', JStr ''vpc-x''),
           (''CidrBlock'', JStr ''10.0.3.0/24''), (''AvailabilityZone'', JStr ''us-east-1a''),
           (''Tags'', JList [tag ''Tier'' (JStr ''app''), tag ''Name'' (JStr ''db-subnet-1'')])]"

definition db_subnet_entry :: subnet_entry where
  "db_subnet_entry =
     \<lparr>subnet_id = JStr ''subnet-1'', subnet_cidr = JStr ''10.0.3.0/24'',
      subnet_az = JStr ''us-east-1a'', subnet_name = JStr ''db-subnet-1''\<rparr>"

definition unnamed_subnet :: json where
  "unnamed_subnet =
     JObj [(''SubnetId'', JStr ''subnet-2''), (''VpcId'', JStr ''vpc-x''),
           (''CidrBlock'', JStr ''10.0.4.0/24''),
           (''Tags'', JList [tag ''Tier'' (JStr ''public'')])]"

definition internet_subnet :: json where
  "internet_subnet =
     JObj [(''SubnetId'', JStr ''subnet-3''), (''VpcId'', JStr ''vpc-x''),
           (''CidrBlock'', JStr ''10.0.5.0/24''),
           (''Tags'', JList [tag ''Name'' (JStr ''edge-1''), tag ''Tier'' (JStr ''internet'')])]"

definition instances_doc :: "json list \<Rightarrow> string \<times> json" where
  "instances_doc items =
     (''describe-instances'', JObj [(''Reservations'', JList [JObj [(''Instances'', JList items)]])])"

definition bare_instance :: json where
  "bare_instance =
     JObj [(''InstanceId'', JStr ''i-1''), (''InstanceType'', JStr ''t2.micro''),
           (''State'', JObj [(''Name'', JStr ''running'')]),
           (''PrivateIpAddress'', JStr ''10.0.1.5''), (''VpcId'', JStr ''vpc-1'')]"

definition bare_instance_entry :: instance_entry where
  "bare_instance_entry =
     \<lparr>instance_id = JStr ''i-1'', instance_type = JStr ''t2.micro'',
      instance_state = JStr ''running'', instance_private_ip = JStr ''10.0.1.5'',
      instance_name = JStr ''(unnamed)''\<rparr>"

definition cache_instance :: json where
  "cache_instance =
     JObj [(''InstanceId'', JStr ''i-2''), (''InstanceType'', JStr ''t3.small''),
           (''State'', JObj [(''Name'', JStr ''running'')]),
           (''PrivateIpAddress'', JStr ''10.0.2.7''), (''VpcId'', JStr ''vpc-1''),
           (''Tags'', JList [tag ''Name'' (JStr ''redis-1''), tag ''Tier'' (JStr ''cache'')])]"

definition old_instance :: json where
  "old_instance =
     JObj [(''InstanceId'', JStr ''i-9''), (''InstanceType'', JStr ''t2.nano''),
           (''State'', JObj [(''Name'', JStr ''terminated'')]),
           (''Tags'', JList [tag ''Name'' (JStr ''web-old'')])]"

definition old_instance_entry :: instance_entry where
  "old_instance_entry =
     \<lparr>instance_id = JStr ''i-9'', instance_type = JStr ''t2.nano'',
      instance_state = JStr ''terminated'', instance_private_ip = JStr [],
      instance_name = JStr ''web-old''\<rparr>"

section \<open>Basic facts\<close>

lemma py_eq_JStr [simp]: "py_eq v (JStr s) = (v = JStr s)"
  by (cases v) auto

lemma for_loop_append:
  "for_loop body (xs @ ys) s =
     (case for_loop body xs s of Inl e \<Rightarrow> Inl e | Inr s' \<Rightarrow> for_loop body ys s')"
  by (induction xs arbitrary: s) (auto split: sum.splits)

text \<open>A record whose body changes nothing can be taken out of the list.\<close>

lemma for_loop_skip:
  assumes "\<And>s. body x s = Inr s"
  shows "for_loop body (xs @ x # ys) s = for_loop body (xs @ ys) s"
  by (simp add: for_loop_append assms split: sum.splits)

lemma for_loop_invariant:
  assumes "for_loop body xs s = Inr s'" and "I s"
    and "\<And>x t t'. x \<in> set xs \<Longrightarrow> I t \<Longrightarrow> body x t = Inr t' \<Longrightarrow> I t'"
  shows "I s'"
  using assms
proof (induction xs arbitrary: s)
  case Nil
  then show ?case by simp
next
  case (Cons x xs)
  from Cons.prems(1) obtain t where t: "body x s = Inr t" and r: "for_loop body xs t = Inr s'"
    by (auto split: sum.splits)
  have "I t" using Cons.prems(2,3) t by auto
  with r show ?case using Cons.IH Cons.prems(3) by auto
qed

text \<open>The same under an invariant of the loop variables.\<close>

lemma for_loop_skip_inv:
  assumes "I s"
    and "\<And>y t t'. I t \<Longrightarrow> body y t = Inr t' \<Longrightarrow> I t'"
    and "\<And>t. I t \<Longrightarrow> body x t = Inr t"
  shows "for_loop body (xs @ x # ys) s = for_loop body (xs @ ys) s"
proof (cases "for_loop body xs s")
  case (Inl e)
  then show ?thesis by (simp add: for_loop_append)
next
  case (Inr t)
  then have "I t" using assms(1,2) by (rule for_loop_invariant)
  then show ?thesis using Inr assms(3) by (simp add: for_loop_append)
qed

lemma for_loop_replace_inv:
  assumes "I s"
    and "\<And>y t t'. I t \<Longrightarrow> body y t = Inr t' \<Longrightarrow> I t'"
    and "\<And>t. I t \<Longrightarrow> body x t = body x' t"
  shows "for_loop body (xs @ x # ys) s = for_loop body (xs @ x' # ys) s"
proof (cases "for_loop body xs s")
  case (Inl e)
  then show ?thesis by (simp add: for_loop_append)
next
  case (Inr t)
  then have "I t" using assms(1,2) by (rule for_loop_invariant)
  then show ?thesis using Inr assms(3) by (simp add: for_loop_append)
qed

subsection \<open>Dicts of lists only grow\<close>

lemma grows_refl: "grows d d"
  by (auto simp: grows_def split: option.splits)

lemma grows_trans:
  assumes "grows a b" and "grows b c"
  shows "grows a c"
  unfolding grows_def
proof
  fix k
  show "case a k of None \<Rightarrow> c k = None | Some l \<Rightarrow> \<exists>l'. c k = Some (l @ l')"
  proof (cases "a k")
    case None
    with assms show ?thesis
      by (auto simp: grows_def dest!: spec [of _ k])
  next
    case (Some l)
    with assms(1) obtain l1 where "b k = Some (l @ l1)"
      by (auto simp: grows_def dest!: spec [of _ k])
    with assms(2) obtain l2 where "c k = Some ((l @ l1) @ l2)"
      by (auto simp: grows_def dest!: spec [of _ k])
    with Some show ?thesis by simp
  qed
qed

lemma grows_keys: "grows d d' \<Longrightarrow> (d' k = None) = (d k = None)"
  by (auto simp: grows_def dest!: spec [of _ k] split: option.splits)

lemma grows_dict_append: "dict_append d t x = Inr d' \<Longrightarrow> grows d d'"
  by (cases t) (auto simp: grows_def split: option.splits)

lemma for_loop_grows:
  assumes "for_loop body xs d = Inr d'"
    and "\<And>x t t'. body x t = Inr t' \<Longrightarrow> grows t t'"
  shows "grows d d'"
  using assms(1)
proof (induction xs arbitrary: d)
  case Nil
  then show ?case by (simp add: grows_refl)
next
  case (Cons x xs)
  then obtain t where "body x d = Inr t" "for_loop body xs t = Inr d'"
    by (auto split: sum.splits)
  then show ?case using Cons.IH assms(2) grows_trans by blast
qed

text \<open>An entry appended to a bucket by one record is in that bucket at the end.\<close>

lemma for_loop_bucket_member:
  assumes run: "for_loop body (xs @ x # ys) init = Inr b"
    and mono: "\<And>y t t'. body y t = Inr t' \<Longrightarrow> grows t t'"
    and step: "\<And>t l. t k = Some l \<Longrightarrow> body x t = Inr (t(k \<mapsto> l @ [e]))"
    and init: "init k = Some l0"
  shows "\<exists>l l'. b k = Some (l @ e # l')"
proof -
  from run obtain a1 a2 where a1: "for_loop body xs init = Inr a1"
    and a2: "body x a1 = Inr a2" and b: "for_loop body ys a2 = Inr b"
    by (auto simp: for_loop_append split: sum.splits)
  have "grows init a1" using a1 mono by (rule for_loop_grows)
  with init obtain l where l: "a1 k = Some l"
    by (auto simp: grows_def dest!: spec [of _ k])
  with step a2 have "a2 k = Some (l @ [e])" by auto
  moreover have "grows a2 b" using b mono by (rule for_loop_grows)
  ultimately obtain l' where "b k = Some ((l @ [e]) @ l')"
    by (auto simp: grows_def dest!: spec [of _ k])
  then show ?thesis by auto
qed

lemma dict_has_unmatched:
  assumes "unmatched tier buckets" and "\<And>k. k \<notin> buckets \<Longrightarrow> d k = None"
  shows "dict_has d tier = Inr False"
  using assms by (cases tier) (auto simp: unmatched_def hashable_def)

lemma subnets_init_keys: "(subnets_init k = None) = (k \<notin> {''public'', ''app'', ''database''})"
  by (simp add: subnets_init_def)

lemma instances_init_keys: "(instances_init k = None) = (k \<notin> {''web'', ''app''})"
  by (simp add: instances_init_def)

lemma py_eq_JNull [simp]: "py_eq v JNull = (v = JNull)"
  by (cases v) auto

lemma py_in_JNull: "py_in JNull ids = (JNull \<in> set ids)"
  by (induction ids) (auto simp: py_in_def)

subsection \<open>Tag loops on well-formed tags\<close>

lemma name_tag_body_tag:
  "name_tag_body (tag k v) name = Inr (if k = ''Name'' then v else name)"
  by (simp add: name_tag_body_def tag_def)

lemma name_tier_tag_body_tag:
  "name_tier_tag_body (tag k v) (name, tier) =
     Inr (if k = ''Name'' then v else name, if k = ''Tier'' then v else tier)"
  by (simp add: name_tier_tag_body_def tag_def)

lemma name_tag_loop:
  "for_loop name_tag_body (map (\<lambda>kv. tag (fst kv) (snd kv)) pairs) name =
     Inr (case map_of (rev pairs) ''Name'' of None \<Rightarrow> name | Some v \<Rightarrow> v)"
proof (induction pairs arbitrary: name)
  case Nil
  then show ?case by simp
next
  case (Cons p pairs)
  show ?case
    by (cases p) (auto simp: name_tag_body_tag Cons.IH map_add_def split: option.splits)
qed

lemma name_tier_tag_loop:
  "for_loop name_tier_tag_body (map (\<lambda>kv. tag (fst kv) (snd kv)) pairs) (name, tier) =
     Inr (case map_of (rev pairs) ''Name'' of None \<Rightarrow> name | Some v \<Rightarrow> v,
          case map_of (rev pairs) ''Tier'' of None \<Rightarrow> tier | Some v \<Rightarrow> v)"
proof (induction pairs arbitrary: name tier)
  case Nil
  then show ?case by simp
next
  case (Cons p pairs)
  show ?case
    by (cases p) (auto simp: name_tier_tag_body_tag Cons.IH map_add_def split: option.splits)
qed

lemma tags_loop_name:
  "has_tags x pairs \<Longrightarrow>
   tags_loop name_tag_body x name =
     Inr (case tag_value pairs ''Name'' of None \<Rightarrow> name | Some v \<Rightarrow> v)"
  by (simp add: tags_loop_def has_tags_def tag_value_def name_tag_loop)

lemma tags_loop_name_tier:
  "has_tags x pairs \<Longrightarrow>
   tags_loop name_tier_tag_body x (name, tier) =
     Inr (case tag_value pairs ''Name'' of None \<Rightarrow> name | Some v \<Rightarrow> v,
          case tag_value pairs ''Tier'' of None \<Rightarrow> tier | Some v \<Rightarrow> v)"
  by (simp add: tags_loop_def has_tags_def tag_value_def name_tier_tag_loop)

lemma has_tags_dict: "has_tags x pairs \<Longrightarrow> \<exists>kvs. x = JObj kvs"
  by (cases x) (auto simp: has_tags_def)

subsection \<open>The example worlds\<close>

lemma run_world_of:
  "action \<noteq> [] \<Longrightarrow>
   run_aws_command (world_of docs) ''ec2'' action None =
     (case map_of docs action of None \<Rightarrow> JNull | Some d \<Rightarrow> d)"
  by (auto simp: run_aws_command_def aws_cmd_def world_of_def split: option.splits)

lemmas eval_world = run_world_of describes_def subnets_doc_def instances_doc_def vpcs_doc_def
lemmas eval_subnets = get_subnets_def get_subnets_body_def tags_loop_def name_tier_tag_body_def
  tag_def out_of_scope_def subnet_tier_def str_lower_def lower_char_def subnets_init_def py_in_def
lemmas eval_instances = get_instances_def get_instances_reservation_def get_instances_body_def
  tags_loop_def name_tier_tag_body_def tag_def out_of_scope_def instance_tier_def
  instance_state_name_def str_lower_def lower_char_def instances_init_def py_in_def

section \<open>Subnets\<close>

lemma get_subnets_describes:
  "describes w ''describe-subnets'' ''Subnets'' items \<Longrightarrow>
   get_subnets w vpc_ids = for_loop (get_subnets_body vpc_ids) items subnets_init"
  by (auto simp: describes_def get_subnets_def Let_def split: json.splits)

lemma get_subnets_body_grows: "get_subnets_body vpc_ids subnet d = Inr d' \<Longrightarrow> grows d d'"
  by (auto simp: get_subnets_body_def Let_def grows_refl
      split: sum.splits bool.splits prod.splits if_splits dest: grows_dict_append)

lemma subnet_tier_spec:
  "subnet_tier (str_lower name) (case tier_tag of None \<Rightarrow> JStr ''app'' | Some v \<Rightarrow> v)
     = spec_subnet_tier name tier_tag"
  by (simp add: subnet_tier_def spec_subnet_tier_def split: option.splits)

text \<open>The loop body on a record with well-formed tags and a name, once it has passed the
  scope filter.\<close>

lemma get_subnets_body_named:
  assumes "in_scope vpc_ids (subscript subnet ''VpcId'')"
    and "has_tags subnet pairs"
    and "tag_value pairs ''Name'' = Some (JStr name)" and "name \<noteq> []"
  shows "get_subnets_body vpc_ids subnet d =
     (let tier = spec_subnet_tier name (tag_value pairs ''Tier'') in
      case dict_has d tier of
        Inl e \<Rightarrow> Inl e
      | Inr False \<Rightarrow> Inr d
      | Inr True \<Rightarrow>
          (case subscript subnet ''SubnetId'' of
             Inl e \<Rightarrow> Inl e
           | Inr i \<Rightarrow>
               (case subscript subnet ''CidrBlock'' of
                  Inl e \<Rightarrow> Inl e
                | Inr c \<Rightarrow>
                    (case dict_get subnet ''AvailabilityZone'' (JStr []) of
                       Inl e \<Rightarrow> Inl e
                     | Inr az \<Rightarrow>
                         dict_append d tier
                           \<lparr>subnet_id = i, subnet_cidr = c, subnet_az = az,
                            subnet_name = JStr name\<rparr>))))"
  using assms
  by (simp add: get_subnets_body_def in_scope_def tags_loop_name_tier [OF assms(2)] Let_def
      subnet_tier_spec split: sum.splits bool.splits)

lemma get_subnets_body_append:
  assumes "in_scope vpc_ids (subscript subnet ''VpcId'')"
    and "has_tags subnet pairs"
    and "tag_value pairs ''Name'' = Some (JStr name)" and "name \<noteq> []"
    and "spec_subnet_tier name (tag_value pairs ''Tier'') = JStr tier"
    and "subnet_fields subnet e"
    and "d tier = Some l"
  shows "get_subnets_body vpc_ids subnet d = Inr (d(tier \<mapsto> l @ [e\<lparr>subnet_name := JStr name\<rparr>]))"
  using assms(5-7)
  by (cases e) (simp add: get_subnets_body_named [OF assms(1-4)] subnet_fields_def)

lemma get_subnets_body_no_bucket:
  assumes "in_scope vpc_ids (subscript subnet ''VpcId'')"
    and "has_tags subnet pairs"
    and "tag_value pairs ''Name'' = Some (JStr name)" and "name \<noteq> []"
    and "spec_subnet_tier name (tag_value pairs ''Tier'') = JStr tier"
    and "d tier = None"
  shows "get_subnets_body vpc_ids subnet d = Inr d"
  using assms(5,6) by (simp add: get_subnets_body_named [OF assms(1-4)])

lemma get_subnets_body_unnamed:
  assumes "out_of_scope vpc_ids (subscript subnet ''VpcId'') = Inr skipped"
    and "lacks_name subnet pairs"
  shows "get_subnets_body vpc_ids subnet d = Inr d"
proof -
  from assms(2) have t: "has_tags subnet pairs"
    and n: "case tag_value pairs ''Name'' of None \<Rightarrow> True | Some v \<Rightarrow> \<not> truthy v"
    by (simp_all add: lacks_name_def)
  show ?thesis
    using assms(1) n
    by (auto simp: get_subnets_body_def tags_loop_name_tier [OF t] split: option.splits bool.splits)
qed

lemma get_subnets_body_unmatched:
  assumes "out_of_scope vpc_ids (subscript subnet ''VpcId'') = Inr skipped"
    and "has_tags subnet pairs"
    and "tag_value pairs ''Name'' = Some (JStr name)"
    and "unmatched (spec_subnet_tier name (tag_value pairs ''Tier''))
           {''public'', ''app'', ''database''}"
    and "grows subnets_init d"
  shows "get_subnets_body vpc_ids subnet d = Inr d"
proof (cases "skipped \<or> name = []")
  case True
  then show ?thesis
    using assms(1,3)
    by (auto simp: get_subnets_body_def tags_loop_name_tier [OF assms(2)] split: bool.splits)
next
  case False
  then have s: "in_scope vpc_ids (subscript subnet ''VpcId'')" and n: "name \<noteq> []"
    using assms(1) by (simp_all add: in_scope_def)
  have "dict_has d (spec_subnet_tier name (tag_value pairs ''Tier'')) = Inr False"
    using assms(4)
  proof (rule dict_has_unmatched)
    fix k assume "k \<notin> {''public'', ''app'', ''database''}"
    then show "d k = None"
      using grows_keys [OF assms(5), of k] subnets_init_keys [of k] by simp
  qed
  then show ?thesis
    by (simp add: get_subnets_body_named [OF s assms(2,3) n])
qed

text \<open>A record that changes no bucket can be taken out of the inventory.\<close>

lemma get_subnets_remove:
  assumes "describes w ''describe-subnets'' ''Subnets'' (xs @ subnet # ys)"
    and "describes w' ''describe-subnets'' ''Subnets'' (xs @ ys)"
    and "\<And>d. grows subnets_init d \<Longrightarrow> get_subnets_body vpc_ids subnet d = Inr d"
  shows "get_subnets w vpc_ids = get_subnets w' vpc_ids"
proof -
  have "for_loop (get_subnets_body vpc_ids) (xs @ subnet # ys) subnets_init
      = for_loop (get_subnets_body vpc_ids) (xs @ ys) subnets_init"
  proof (rule for_loop_skip_inv [where I = "grows subnets_init"])
    show "grows subnets_init subnets_init" by (rule grows_refl)
    show "\<And>y t t'. grows subnets_init t \<Longrightarrow> get_subnets_body vpc_ids y t = Inr t'
        \<Longrightarrow> grows subnets_init t'"
      using get_subnets_body_grows grows_trans by blast
    show "\<And>t. grows subnets_init t \<Longrightarrow> get_subnets_body vpc_ids subnet t = Inr t"
      by (rule assms(3))
  qed
  then show ?thesis using assms(1,2) by (simp add: get_subnets_describes)
qed

section \<open>Instances\<close>

lemma get_instances_describes:
  "describes w ''describe-instances'' ''Reservations'' rs \<Longrightarrow>
   get_instances w vpc_ids = for_loop (get_instances_reservation vpc_ids) rs instances_init"
  by (auto simp: describes_def get_instances_def Let_def split: json.splits)

lemma get_instances_reservation_lists:
  "reservation_lists r items \<Longrightarrow>
   get_instances_reservation vpc_ids r d = for_loop (get_instances_body vpc_ids) items d"
  by (simp add: reservation_lists_def get_instances_reservation_def)

lemma get_instances_body_grows: "get_instances_body vpc_ids instance d = Inr d' \<Longrightarrow> grows d d'"
  by (auto simp: get_instances_body_def Let_def grows_refl
      split: sum.splits bool.splits prod.splits if_splits dest: grows_dict_append)

lemma get_instances_reservation_grows:
  "get_instances_reservation vpc_ids r d = Inr d' \<Longrightarrow> grows d d'"
  by (auto simp: get_instances_reservation_def split: sum.splits
      intro: for_loop_grows get_instances_body_grows)

lemma instance_tier_spec:
  "instance_tier (str_lower name) (case tier_tag of None \<Rightarrow> JStr ''web'' | Some v \<Rightarrow> v)
     = spec_instance_tier name tier_tag"
  by (simp add: instance_tier_def spec_instance_tier_def split: option.splits)

text \<open>The loop body on a record with well-formed tags, once it has passed the scope
  filter; \<open>name\<close> is the value of the Name tag, empty without one.\<close>

lemma get_instances_body_tagged:
  assumes "in_scope vpc_ids (dict_get instance ''VpcId'' JNull)"
    and "has_tags instance pairs"
    and "(case tag_value pairs ''Name'' of None \<Rightarrow> JStr [] | Some v \<Rightarrow> v) = JStr name"
  shows "get_instances_body vpc_ids instance d =
     (let tier = spec_instance_tier name (tag_value pairs ''Tier'') in
      case dict_has d tier of
        Inl e \<Rightarrow> Inl e
      | Inr False \<Rightarrow> Inr d
      | Inr True \<Rightarrow>
          (case subscript instance ''InstanceId'' of
             Inl e \<Rightarrow> Inl e
           | Inr i \<Rightarrow>
               (case dict_get instance ''InstanceType'' (JStr []) of
                  Inl e \<Rightarrow> Inl e
                | Inr t \<Rightarrow>
                    (case instance_state_name instance of
                       Inl e \<Rightarrow> Inl e
                     | Inr st \<Rightarrow>
                         (case dict_get instance ''PrivateIpAddress'' (JStr []) of
                            Inl e \<Rightarrow> Inl e
                          | Inr ip \<Rightarrow>
                              dict_append d tier
                                \<lparr>instance_id = i, instance_type = t, instance_state = st,
                                 instance_private_ip = ip,
                                 instance_name = display_name name\<rparr>)))))"
  using assms
  by (simp add: get_instances_body_def in_scope_def tags_loop_name_tier [OF assms(2)] Let_def
      display_name_def instance_tier_spec split: sum.splits bool.splits)

lemma get_instances_body_append:
  assumes "in_scope vpc_ids (dict_get instance ''VpcId'' JNull)"
    and "has_tags instance pairs"
    and "(case tag_value pairs ''Name'' of None \<Rightarrow> JStr [] | Some v \<Rightarrow> v) = JStr name"
    and "spec_instance_tier name (tag_value pairs ''Tier'') = JStr tier"
    and "instance_fields instance e"
    and "d tier = Some l"
  shows "get_instances_body vpc_ids instance d =
           Inr (d(tier \<mapsto> l @ [e\<lparr>instance_name := display_name name\<rparr>]))"
  using assms(4-6)
  by (cases e) (simp add: get_instances_body_tagged [OF assms(1-3)] instance_fields_def)

lemma get_instances_body_unmatched:
  assumes "out_of_scope vpc_ids (dict_get instance ''VpcId'' JNull) = Inr skipped"
    and "has_tags instance pairs"
    and "(case tag_value pairs ''Name'' of None \<Rightarrow> JStr [] | Some v \<Rightarrow> v) = JStr name"
    and "unmatched (spec_instance_tier name (tag_value pairs ''Tier'')) {''web'', ''app''}"
    and "grows instances_init d"
  shows "get_instances_body vpc_ids instance d = Inr d"
proof (cases skipped)
  case True
  then show ?thesis
    using assms(1) by (simp add: get_instances_body_def)
next
  case False
  then have s: "in_scope vpc_ids (dict_get instance ''VpcId'' JNull)"
    using assms(1) by (simp add: in_scope_def)
  have "dict_has d (spec_instance_tier name (tag_value pairs ''Tier'')) = Inr False"
    using assms(4)
  proof (rule dict_has_unmatched)
    fix k assume "k \<notin> {''web'', ''app''}"
    then show "d k = None"
      using grows_keys [OF assms(5), of k] instances_init_keys [of k] by simp
  qed
  then show ?thesis
    by (simp add: get_instances_body_tagged [OF s assms(2,3)])
qed

text \<open>An instance record that changes no bucket can be taken out of its reservation.\<close>

lemma get_instances_remove:
  assumes "describes w ''describe-instances'' ''Reservations'' (rs @ r # rs')"
    and "describes w' ''describe-instances'' ''Reservations'' (rs @ r' # rs')"
    and "reservation_lists r (xs @ instance # ys)"
    and "reservation_lists r' (xs @ ys)"
    and "\<And>d. grows instances_init d \<Longrightarrow> get_instances_body vpc_ids instance d = Inr d"
  shows "get_instances w vpc_ids = get_instances w' vpc_ids"
proof -
  have keep: "grows instances_init t'"
    if "grows instances_init t" and "get_instances_body vpc_ids y t = Inr t'" for y t t'
    using that get_instances_body_grows grows_trans by blast
  have "for_loop (get_instances_reservation vpc_ids) (rs @ r # rs') instances_init
      = for_loop (get_instances_reservation vpc_ids) (rs @ r' # rs') instances_init"
  proof (rule for_loop_replace_inv [where I = "grows instances_init"])
    show "grows instances_init instances_init" by (rule grows_refl)
    show "\<And>y t t'. grows instances_init t \<Longrightarrow> get_instances_reservation vpc_ids y t = Inr t'
        \<Longrightarrow> grows instances_init t'"
      using get_instances_reservation_grows grows_trans by blast
    fix t assume t: "grows instances_init t"
    have "for_loop (get_instances_body vpc_ids) (xs @ instance # ys) t
        = for_loop (get_instances_body vpc_ids) (xs @ ys) t"
      using t keep assms(5) by (rule for_loop_skip_inv [where I = "grows instances_init"])
    then show "get_instances_reservation vpc_ids r t = get_instances_reservation vpc_ids r' t"
      using assms(3,4) by (simp add: get_instances_reservation_lists)
  qed
  then show ?thesis using assms(1,2) by (simp add: get_instances_describes)
qed

text \<open>An entry appended by one instance record is in its bucket at the end.\<close>

lemma get_instances_member:
  assumes run: "get_instances w vpc_ids = Inr b"
    and "describes w ''describe-instances'' ''Reservations'' (rs @ r # rs')"
    and "reservation_lists r (xs @ instance # ys)"
    and step: "\<And>t l. t k = Some l \<Longrightarrow>
                 get_instances_body vpc_ids instance t = Inr (t(k \<mapsto> l @ [e]))"
    and init: "instances_init k = Some []"
  shows "\<exists>l l'. b k = Some (l @ e # l')"
proof -
  from run assms(2) obtain a1 a2 where
    a1: "for_loop (get_instances_reservation vpc_ids) rs instances_init = Inr a1"
    and a2: "get_instances_reservation vpc_ids r a1 = Inr a2"
    and b: "for_loop (get_instances_reservation vpc_ids) rs' a2 = Inr b"
    by (auto simp: get_instances_describes for_loop_append split: sum.splits)
  have "grows instances_init a1"
    using a1 get_instances_reservation_grows by (rule for_loop_grows)
  with init obtain l0 where l0: "a1 k = Some l0"
    by (auto simp: grows_def dest!: spec [of _ k])
  from a2 assms(3) have "for_loop (get_instances_body vpc_ids) (xs @ instance # ys) a1 = Inr a2"
    by (simp add: get_instances_reservation_lists)
  then have "\<exists>l l'. a2 k = Some (l @ e # l')"
  proof (rule for_loop_bucket_member)
    show "\<And>y t t'. get_instances_body vpc_ids y t = Inr t' \<Longrightarrow> grows t t'"
      by (rule get_instances_body_grows)
    show "\<And>t l. t k = Some l \<Longrightarrow>
        get_instances_body vpc_ids instance t = Inr (t(k \<mapsto> l @ [e]))"
      by (rule step)
    show "a1 k = Some l0" by (rule l0)
  qed
  then obtain l l' where "a2 k = Some (l @ e # l')" by blast
  moreover have "grows a2 b"
    using b get_instances_reservation_grows by (rule for_loop_grows)
  ultimately obtain l'' where "b k = Some ((l @ e # l') @ l'')"
    by (auto simp: grows_def dest!: spec [of _ k])
  then show ?thesis by auto
qed

section \<open>VPCs: the default VPC and unnamed VPCs\<close>

lemma get_vpcs_describes:
  "describes w ''describe-vpcs'' ''Vpcs'' items \<Longrightarrow> get_vpcs w = for_loop get_vpcs_body items []"
  by (auto simp: describes_def get_vpcs_def Let_def split: json.splits)

lemma get_vpcs_body_default: "is_default vpc \<Longrightarrow> get_vpcs_body vpc vpcs = Inr vpcs"
  by (auto simp: is_default_def get_vpcs_body_def split: sum.splits)

lemma get_vpcs_body_unnamed:
  assumes "lacks_name vpc pairs"
  shows "get_vpcs_body vpc vpcs = Inr vpcs"
proof -
  from assms have t: "has_tags vpc pairs"
    and n: "case tag_value pairs ''Name'' of None \<Rightarrow> True | Some v \<Rightarrow> \<not> truthy v"
    by (simp_all add: lacks_name_def)
  from t obtain kvs where "vpc = JObj kvs" using has_tags_dict by blast
  moreover have "\<exists>name. tags_loop name_tag_body vpc (JStr []) = Inr name \<and> \<not> truthy name"
    using n by (auto simp: tags_loop_name [OF t] split: option.splits)
  ultimately show ?thesis
    by (auto simp: get_vpcs_body_def)
qed

lemma get_vpcs_body_source:
  assumes "get_vpcs_body vpc vpcs = Inr vpcs'" and "e \<in> set vpcs'"
  shows "e \<in> set vpcs \<or> vpc_source vpc e"
  using assms
  by (auto simp: get_vpcs_body_def vpc_source_def is_default_def split: sum.splits if_splits)

lemma get_vpcs_sources:
  assumes "describes w ''describe-vpcs'' ''Vpcs'' items" and "get_vpcs w = Inr vpcs"
  shows "\<forall>e \<in> set vpcs. \<exists>vpc \<in> set items. vpc_source vpc e"
proof -
  have "for_loop get_vpcs_body items [] = Inr vpcs"
    using assms by (simp add: get_vpcs_describes)
  then show ?thesis
  proof (rule for_loop_invariant)
    show "\<forall>e \<in> set []. \<exists>vpc \<in> set items. vpc_source vpc e" by simp
  next
    fix x t t'
    assume "x \<in> set items" "\<forall>e\<in>set t. \<exists>vpc\<in>set items. vpc_source vpc e"
      "get_vpcs_body x t = Inr t'"
    then show "\<forall>e\<in>set t'. \<exists>vpc\<in>set items. vpc_source vpc e"
      using get_vpcs_body_source by blast
  qed
qed

lemma get_vpcs_remove:
  assumes "describes w ''describe-vpcs'' ''Vpcs'' (xs @ vpc # ys)"
    and "describes w' ''describe-vpcs'' ''Vpcs'' (xs @ ys)"
    and "is_default vpc \<or> lacks_name vpc pairs"
  shows "get_vpcs w = get_vpcs w'"
proof -
  have "get_vpcs_body vpc vpcs = Inr vpcs" for vpcs
    using assms(3) get_vpcs_body_default get_vpcs_body_unnamed by blast
  then have "for_loop get_vpcs_body (xs @ vpc # ys) [] = for_loop get_vpcs_body (xs @ ys) []"
    by (rule for_loop_skip)
  then show ?thesis
    using assms(1,2) by (simp add: get_vpcs_describes)
qed

text \<open>
  Claim C9. Let the describe-vpcs call list a VPC record that is the default VPC, or whose
  Name tag does not resolve. Then \<^verbatim>\<open>get_vpcs\<close> returns what it returns for the inventory
  without that record, so the record contributes nothing to the output nor to the scope,
  which \<^verbatim>\<open>generate_html\<close> computes from the output alone (\<^const>\<open>scope_ids\<close>). Moreover every
  entry of the output, and with it every identifier of the scope, was made from a record
  of the inventory that is not the default VPC and whose name resolved.
\<close>

theorem get_vpcs_excludes_default_and_unnamed:
  assumes "describes w ''describe-vpcs'' ''Vpcs'' (xs @ vpc # ys)"
    and "describes w' ''describe-vpcs'' ''Vpcs'' (xs @ ys)"
    and "is_default vpc \<or> lacks_name vpc pairs"
  shows "get_vpcs w = get_vpcs w'
    \<and> (\<forall>vpcs. get_vpcs w = Inr vpcs \<longrightarrow>
          (\<forall>e \<in> set vpcs. \<exists>v \<in> set (xs @ ys). vpc_source v e)
          \<and> (\<forall>ids. scope_ids vpcs = Some ids \<longrightarrow>
                (\<forall>i \<in> set ids. \<exists>v \<in> set (xs @ ys). \<exists>e. vpc_source v e \<and> vpc_entry_id e = i)))"
proof -
  have eq: "get_vpcs w = get_vpcs w'"
    using assms by (rule get_vpcs_remove)
  have src: "\<forall>e \<in> set vpcs. \<exists>v \<in> set (xs @ ys). vpc_source v e" if "get_vpcs w = Inr vpcs" for vpcs
    using get_vpcs_sources [OF assms(2)] that eq by simp
  have "\<forall>i \<in> set ids. \<exists>v \<in> set (xs @ ys). \<exists>e. vpc_source v e \<and> vpc_entry_id e = i"
    if "get_vpcs w = Inr vpcs" and "scope_ids vpcs = Some ids" for vpcs ids
  proof
    fix i assume "i \<in> set ids"
    with that(2) obtain e where "e \<in> set vpcs" "vpc_entry_id e = i"
      by (auto simp: scope_ids_def split: if_splits)
    with src [OF that(1)] show "\<exists>v \<in> set (xs @ ys). \<exists>e. vpc_source v e \<and> vpc_entry_id e = i"
      by blast
  qed
  with eq src show ?thesis by blast
qed

theorem get_vpcs_excludes_witness:
  "get_vpcs (world_of [vpcs_doc [default_vpc, main_vpc]]) = Inr [main_vpc_entry]
   \<and> get_vpcs (world_of [vpcs_doc [main_vpc, unnamed_vpc]]) = Inr [main_vpc_entry]
   \<and> vpc_source main_vpc main_vpc_entry
   \<and> scope_ids [main_vpc_entry] = Some [JStr ''vpc-1'']"
proof -
  have d1: "describes (world_of [vpcs_doc [default_vpc, main_vpc]]) ''describe-vpcs'' ''Vpcs''
              ([] @ default_vpc # [main_vpc])"
    by (simp add: describes_def run_world_of vpcs_doc_def)
  have d2: "describes (world_of [vpcs_doc [main_vpc]]) ''describe-vpcs'' ''Vpcs'' ([] @ [main_vpc])"
    by (simp add: describes_def run_world_of vpcs_doc_def)
  have d3: "describes (world_of [vpcs_doc [main_vpc, unnamed_vpc]]) ''describe-vpcs'' ''Vpcs''
              ([main_vpc] @ unnamed_vpc # [])"
    by (simp add: describes_def run_world_of vpcs_doc_def)
  have d4: "describes (world_of [vpcs_doc [main_vpc]]) ''describe-vpcs'' ''Vpcs'' ([main_vpc] @ [])"
    by (simp add: describes_def run_world_of vpcs_doc_def)
  have h1: "is_default default_vpc \<or> lacks_name default_vpc []"
    by (simp add: is_default_def default_vpc_def)
  have h2: "is_default unnamed_vpc \<or> lacks_name unnamed_vpc [(''Env'', JStr ''dev'')]"
    by (simp add: lacks_name_def has_tags_def tag_value_def unnamed_vpc_def)
  have e: "get_vpcs (world_of [vpcs_doc [main_vpc]]) = Inr [main_vpc_entry]"
    by (simp add: get_vpcs_def run_world_of vpcs_doc_def main_vpc_def get_vpcs_body_def
        tags_loop_def name_tag_body_def tag_def main_vpc_entry_def)
  have s: "vpc_source main_vpc main_vpc_entry"
    using get_vpcs_excludes_default_and_unnamed [OF d1 d2 h1] e by simp
  show ?thesis
    using get_vpcs_excludes_default_and_unnamed [OF d1 d2 h1]
      get_vpcs_excludes_default_and_unnamed [OF d3 d4 h2] e s
    by (simp add: scope_ids_def main_vpc_entry_def)
qed

section \<open>Claim C1: the tier of a subnet\<close>

text \<open>
  Claim C1. Take a subnet record of the inventory that passes the scope filter (the scope
  is unrestricted, or the record's VPC is in scope), with well-formed tags and a Name tag
  whose value is a non-empty string. Let \<open>tier\<close> be the tier that the ordered rule of the
  specification gives (\<^const>\<open>spec_subnet_tier\<close>: the Tier tag, or "app"; then "public" for a
  name containing "public" in any case; else "database" for a name containing "db" or
  "database"). Then the loop body appends the record's entry to the bucket \<open>tier\<close> and
  changes nothing else, or changes nothing at all when there is no such bucket; and when
  \<^verbatim>\<open>get_subnets\<close> returns and \<open>tier\<close> is one of the three buckets, the entry is in that
  bucket of the result. The witness is the scenario of the claim: the VPC inventory is
  unavailable, the subnet is tagged Tier=app and named "db-subnet-1", and it lands in the
  database bucket.
\<close>

theorem subnet_tier_rule:
  assumes "describes w ''describe-subnets'' ''Subnets'' (xs @ subnet # ys)"
    and "in_scope vpc_ids (subscript subnet ''VpcId'')"
    and "has_tags subnet pairs"
    and "tag_value pairs ''Name'' = Some (JStr name)" and "name \<noteq> []"
    and "spec_subnet_tier name (tag_value pairs ''Tier'') = JStr tier"
    and "subnet_fields subnet e"
  shows "(\<forall>d l. d tier = Some l \<longrightarrow>
            get_subnets_body vpc_ids subnet d = Inr (d(tier \<mapsto> l @ [e\<lparr>subnet_name := JStr name\<rparr>])))
    \<and> (\<forall>d. d tier = None \<longrightarrow> get_subnets_body vpc_ids subnet d = Inr d)
    \<and> (\<forall>b. get_subnets w vpc_ids = Inr b \<and> tier \<in> {''public'', ''app'', ''database''} \<longrightarrow>
          (\<exists>l l'. b tier = Some (l @ e\<lparr>subnet_name := JStr name\<rparr> # l')))"
proof (intro conjI allI impI)
  fix d :: "string \<rightharpoonup> subnet_entry list" and l assume "d tier = Some l"
  then show "get_subnets_body vpc_ids subnet d = Inr (d(tier \<mapsto> l @ [e\<lparr>subnet_name := JStr name\<rparr>]))"
    by (rule get_subnets_body_append [OF assms(2-7)])
next
  fix d :: "string \<rightharpoonup> subnet_entry list" assume "d tier = None"
  then show "get_subnets_body vpc_ids subnet d = Inr d"
    by (rule get_subnets_body_no_bucket [OF assms(2-6)])
next
  fix b assume b: "get_subnets w vpc_ids = Inr b \<and> tier \<in> {''public'', ''app'', ''database''}"
  then have run: "for_loop (get_subnets_body vpc_ids) (xs @ subnet # ys) subnets_init = Inr b"
    using assms(1) by (simp add: get_subnets_describes)
  from b have init: "subnets_init tier = Some []"
    by (auto simp: subnets_init_def)
  show "\<exists>l l'. b tier = Some (l @ e\<lparr>subnet_name := JStr name\<rparr> # l')"
  proof (rule for_loop_bucket_member [OF run _ _ init])
    show "\<And>y t t'. get_subnets_body vpc_ids y t = Inr t' \<Longrightarrow> grows t t'"
      by (rule get_subnets_body_grows)
    show "\<And>t l. t tier = Some l \<Longrightarrow>
      get_subnets_body vpc_ids subnet t = Inr (t(tier \<mapsto> l @ [e\<lparr>subnet_name := JStr name\<rparr>]))"
      by (rule get_subnets_body_append [OF assms(2-7)])
  qed
qed

theorem subnet_tier_rule_witness:
  "get_vpcs (world_of [subnets_doc [db_subnet]]) = Inr []
   \<and> scope_ids [] = None
   \<and> spec_subnet_tier ''db-subnet-1'' (Some (JStr ''app'')) = JStr ''database''
   \<and> get_subnets (world_of [subnets_doc [db_subnet]]) None
       = Inr (subnets_init(''database'' \<mapsto> [db_subnet_entry]))
   \<and> (\<exists>l l'. (subnets_init(''database'' \<mapsto> [db_subnet_entry])) ''database''
         = Some (l @ db_subnet_entry # l'))"
proof -
  let ?w = "world_of [subnets_doc [db_subnet]]"
  let ?pairs = "[(''Tier'', JStr ''app''), (''Name'', JStr ''db-subnet-1'')]"
  have v: "get_vpcs ?w = Inr []"
    by (simp add: get_vpcs_def eval_world)
  have d: "describes ?w ''describe-subnets'' ''Subnets'' ([] @ db_subnet # [])"
    by (simp add: eval_world)
  have s: "in_scope None (subscript db_subnet ''VpcId'')"
    by (simp add: in_scope_def out_of_scope_def)
  have t: "has_tags db_subnet ?pairs"
    by (simp add: has_tags_def db_subnet_def)
  have n: "tag_value ?pairs ''Name'' = Some (JStr ''db-subnet-1'')" "''db-subnet-1'' \<noteq> []"
    by (simp_all add: tag_value_def)
  have r: "spec_subnet_tier ''db-subnet-1'' (tag_value ?pairs ''Tier'') = JStr ''database''"
    by (simp add: spec_subnet_tier_def str_lower_def lower_char_def tag_value_def)
  have f: "subnet_fields db_subnet db_subnet_entry"
    by (simp add: subnet_fields_def db_subnet_def db_subnet_entry_def)
  have e: "get_subnets ?w None = Inr (subnets_init(''database'' \<mapsto> [db_subnet_entry]))"
    by (simp add: eval_world eval_subnets db_subnet_def db_subnet_entry_def)
  have u: "db_subnet_entry\<lparr>subnet_name := JStr ''db-subnet-1''\<rparr> = db_subnet_entry"
    by (simp add: db_subnet_entry_def)
  from subnet_tier_rule [OF d s t n r f] e u
  have "\<exists>l l'. (subnets_init(''database'' \<mapsto> [db_subnet_entry])) ''database''
         = Some (l @ db_subnet_entry # l')"
    by simp
  with v e r show ?thesis
    by (simp add: scope_ids_def tag_value_def)
qed

section \<open>Claim C6: a subnet without a name\<close>

text \<open>
  Claim C6. Let the describe-subnets call list a subnet record whose Name tag does not
  resolve (there is none, or its value is empty), whatever its other tags, and let the
  scope test of the record raise nothing. Then \<^verbatim>\<open>get_subnets\<close> returns what it returns
  for the inventory without that record: the record is in no bucket.
\<close>

theorem unnamed_subnet_dropped:
  assumes "describes w ''describe-subnets'' ''Subnets'' (xs @ subnet # ys)"
    and "describes w' ''describe-subnets'' ''Subnets'' (xs @ ys)"
    and "out_of_scope vpc_ids (subscript subnet ''VpcId'') = Inr skipped"
    and "lacks_name subnet pairs"
  shows "get_subnets w vpc_ids = get_subnets w' vpc_ids"
  using assms(1,2)
proof (rule get_subnets_remove)
  fix d show "get_subnets_body vpc_ids subnet d = Inr d"
    using assms(3,4) by (rule get_subnets_body_unnamed)
qed

theorem unnamed_subnet_dropped_witness:
  "get_subnets (world_of [subnets_doc [unnamed_subnet, db_subnet]]) (Some [JStr ''vpc-x''])
     = Inr (subnets_init(''database'' \<mapsto> [db_subnet_entry]))
   \<and> lacks_name unnamed_subnet [(''Tier'', JStr ''public'')]"
proof -
  have d: "describes (world_of [subnets_doc [unnamed_subnet, db_subnet]])
             ''describe-subnets'' ''Subnets'' ([] @ unnamed_subnet # [db_subnet])"
    by (simp add: eval_world)
  have d': "describes (world_of [subnets_doc [db_subnet]])
             ''describe-subnets'' ''Subnets'' ([] @ [db_subnet])"
    by (simp add: eval_world)
  have s: "out_of_scope (Some [JStr ''vpc-x'']) (subscript unnamed_subnet ''VpcId'') = Inr False"
    by (simp add: out_of_scope_def unnamed_subnet_def py_in_def)
  have n: "lacks_name unnamed_subnet [(''Tier'', JStr ''public'')]"
    by (simp add: lacks_name_def has_tags_def tag_value_def unnamed_subnet_def)
  have e: "get_subnets (world_of [subnets_doc [db_subnet]]) (Some [JStr ''vpc-x''])
      = Inr (subnets_init(''database'' \<mapsto> [db_subnet_entry]))"
    by (simp add: eval_world eval_subnets db_subnet_def db_subnet_entry_def)
  show ?thesis
    using unnamed_subnet_dropped [OF d d' s n] e n by simp
qed

section \<open>Claim C5: a tier that names no bucket\<close>

text \<open>
  Claim C5. Let a subnet record (an instance record) of the inventory have well-formed tags
  and let its resolved tier be none of "public", "app", "database" (none of "web", "app"),
  as for the Tier tag "internet". Then \<^verbatim>\<open>get_subnets\<close> (\<^verbatim>\<open>get_instances\<close>) returns what it
  returns for the inventory without that record: the record is dropped from every
  bucket, and no exception is raised for it.
\<close>

theorem unmatched_tier_dropped:
  "(describes w ''describe-subnets'' ''Subnets'' (xs @ subnet # ys)
      \<and> describes w' ''describe-subnets'' ''Subnets'' (xs @ ys)
      \<and> out_of_scope vpc_ids (subscript subnet ''VpcId'') = Inr skipped
      \<and> has_tags subnet pairs
      \<and> tag_value pairs ''Name'' = Some (JStr name)
      \<and> unmatched (spec_subnet_tier name (tag_value pairs ''Tier''))
            {''public'', ''app'', ''database''}
    \<longrightarrow> get_subnets w vpc_ids = get_subnets w' vpc_ids)
   \<and> (describes w ''describe-instances'' ''Reservations'' (rs @ r # rs')
      \<and> describes w' ''describe-instances'' ''Reservations'' (rs @ r' # rs')
      \<and> reservation_lists r (ins @ inst # jns)
      \<and> reservation_lists r' (ins @ jns)
      \<and> out_of_scope vpc_ids (dict_get inst ''VpcId'' JNull) = Inr iskipped
      \<and> has_tags inst ipairs
      \<and> (case tag_value ipairs ''Name'' of None \<Rightarrow> JStr [] | Some v \<Rightarrow> v) = JStr iname
      \<and> unmatched (spec_instance_tier iname (tag_value ipairs ''Tier'')) {''web'', ''app''}
    \<longrightarrow> get_instances w vpc_ids = get_instances w' vpc_ids)"
proof (intro conjI impI)
  assume a: "describes w ''describe-subnets'' ''Subnets'' (xs @ subnet # ys)
      \<and> describes w' ''describe-subnets'' ''Subnets'' (xs @ ys)
      \<and> out_of_scope vpc_ids (subscript subnet ''VpcId'') = Inr skipped
      \<and> has_tags subnet pairs
      \<and> tag_value pairs ''Name'' = Some (JStr name)
      \<and> unmatched (spec_subnet_tier name (tag_value pairs ''Tier''))
            {''public'', ''app'', ''database''}"
  show "get_subnets w vpc_ids = get_subnets w' vpc_ids"
  proof (rule get_subnets_remove)
    show "describes w ''describe-subnets'' ''Subnets'' (xs @ subnet # ys)" using a by simp
    show "describes w' ''describe-subnets'' ''Subnets'' (xs @ ys)" using a by simp
    fix d assume "grows subnets_init d"
    with a show "get_subnets_body vpc_ids subnet d = Inr d"
      by (intro get_subnets_body_unmatched [where skipped = skipped and pairs = pairs and name = name])
        simp_all
  qed
next
  assume a: "describes w ''describe-instances'' ''Reservations'' (rs @ r # rs')
      \<and> describes w' ''describe-instances'' ''Reservations'' (rs @ r' # rs')
      \<and> reservation_lists r (ins @ inst # jns)
      \<and> reservation_lists r' (ins @ jns)
      \<and> out_of_scope vpc_ids (dict_get inst ''VpcId'' JNull) = Inr iskipped
      \<and> has_tags inst ipairs
      \<and> (case tag_value ipairs ''Name'' of None \<Rightarrow> JStr [] | Some v \<Rightarrow> v) = JStr iname
      \<and> unmatched (spec_instance_tier iname (tag_value ipairs ''Tier'')) {''web'', ''app''}"
  show "get_instances w vpc_ids = get_instances w' vpc_ids"
  proof (rule get_instances_remove)
    show "describes w ''describe-instances'' ''Reservations'' (rs @ r # rs')" using a by simp
    show "describes w' ''describe-instances'' ''Reservations'' (rs @ r' # rs')" using a by simp
    show "reservation_lists r (ins @ inst # jns)" using a by simp
    show "reservation_lists r' (ins @ jns)" using a by simp
    fix d assume "grows instances_init d"
    with a show "get_instances_body vpc_ids inst d = Inr d"
      by (intro get_instances_body_unmatched
          [where skipped = iskipped and pairs = ipairs and name = iname]) simp_all
  qed
qed

theorem unmatched_tier_dropped_witness:
  "unmatched (spec_subnet_tier ''edge-1'' (Some (JStr ''internet''))) {''public'', ''app'', ''database''}
   \<and> get_subnets (world_of [subnets_doc [internet_subnet, db_subnet]]) None
       = Inr (subnets_init(''database'' \<mapsto> [db_subnet_entry]))
   \<and> unmatched (spec_instance_tier ''redis-1'' (Some (JStr ''cache''))) {''web'', ''app''}
   \<and> get_instances (world_of [instances_doc [bare_instance, cache_instance]]) None
       = Inr (instances_init(''web'' \<mapsto> [bare_instance_entry]))"
proof -
  let ?sp = "[(''Name'', JStr ''edge-1''), (''Tier'', JStr ''internet'')]"
  let ?ip = "[(''Name'', JStr ''redis-1''), (''Tier'', JStr ''cache'')]"
  have s1: "describes (world_of [subnets_doc [internet_subnet, db_subnet]])
             ''describe-subnets'' ''Subnets'' ([] @ internet_subnet # [db_subnet])"
    by (simp add: eval_world)
  have s2: "describes (world_of [subnets_doc [db_subnet]])
             ''describe-subnets'' ''Subnets'' ([] @ [db_subnet])"
    by (simp add: eval_world)
  have s3: "out_of_scope None (subscript internet_subnet ''VpcId'') = Inr False"
    by (simp add: out_of_scope_def)
  have s4: "has_tags internet_subnet ?sp" "tag_value ?sp ''Name'' = Some (JStr ''edge-1'')"
    by (simp_all add: has_tags_def tag_value_def internet_subnet_def)
  have s5: "unmatched (spec_subnet_tier ''edge-1'' (tag_value ?sp ''Tier''))
              {''public'', ''app'', ''database''}"
    by (simp add: unmatched_def hashable_def spec_subnet_tier_def tag_value_def str_lower_def
        lower_char_def image_iff)
  have s6: "get_subnets (world_of [subnets_doc [db_subnet]]) None
      = Inr (subnets_init(''database'' \<mapsto> [db_subnet_entry]))"
    by (simp add: eval_world eval_subnets db_subnet_def db_subnet_entry_def)
  have i1: "describes (world_of [instances_doc [bare_instance, cache_instance]])
             ''describe-instances'' ''Reservations''
             ([] @ JObj [(''Instances'', JList [bare_instance, cache_instance])] # [])"
    by (simp add: eval_world)
  have i2: "describes (world_of [instances_doc [bare_instance]])
             ''describe-instances'' ''Reservations''
             ([] @ JObj [(''Instances'', JList [bare_instance])] # [])"
    by (simp add: eval_world)
  have i3: "reservation_lists (JObj [(''Instances'', JList [bare_instance, cache_instance])])
              ([bare_instance] @ cache_instance # [])"
      "reservation_lists (JObj [(''Instances'', JList [bare_instance])]) ([bare_instance] @ [])"
    by (simp_all add: reservation_lists_def)
  have i4: "out_of_scope None (dict_get cache_instance ''VpcId'' JNull) = Inr False"
    by (simp add: out_of_scope_def)
  have i5: "has_tags cache_instance ?ip"
      "(case tag_value ?ip ''Name'' of None \<Rightarrow> JStr [] | Some v \<Rightarrow> v) = JStr ''redis-1''"
    by (simp_all add: has_tags_def tag_value_def cache_instance_def)
  have i6: "unmatched (spec_instance_tier ''redis-1'' (tag_value ?ip ''Tier'')) {''web'', ''app''}"
    by (simp add: unmatched_def hashable_def spec_instance_tier_def tag_value_def str_lower_def
        lower_char_def image_iff)
  have i7: "get_instances (world_of [instances_doc [bare_instance]]) None
      = Inr (instances_init(''web'' \<mapsto> [bare_instance_entry]))"
    by (simp add: eval_world eval_instances bare_instance_def bare_instance_entry_def)
  have a: "get_subnets (world_of [subnets_doc [internet_subnet, db_subnet]]) None
      = get_subnets (world_of [subnets_doc [db_subnet]]) None"
    using unmatched_tier_dropped
      [of "world_of [subnets_doc [internet_subnet, db_subnet]]" "[]" internet_subnet "[db_subnet]"
        "world_of [subnets_doc [db_subnet]]" None False "?sp" "''edge-1''"]
      s1 s2 s3 s4 s5 by blast
  have b: "get_instances (world_of [instances_doc [bare_instance, cache_instance]]) None
      = get_instances (world_of [instances_doc [bare_instance]]) None"
    using unmatched_tier_dropped
      [where w = "world_of [instances_doc [bare_instance, cache_instance]]" and rs = "[]"
        and r = "JObj [(''Instances'', JList [bare_instance, cache_instance])]" and rs' = "[]"
        and w' = "world_of [instances_doc [bare_instance]]"
        and r' = "JObj [(''Instances'', JList [bare_instance])]"
        and ins = "[bare_instance]" and inst = cache_instance and jns = "[]"
        and vpc_ids = None and iskipped = False and ipairs = "?ip" and iname = "''redis-1''"]
      i1 i2 i3 i4 i5 i6 by blast
  show ?thesis
    using a b s5 s6 i6 i7 by (simp add: tag_value_def)
qed

section \<open>Claim C7: an instance without a name\<close>

text \<open>
  Claim C7. Take an instance record of the inventory that passes the scope filter, with
  well-formed tags and no Name tag (or an empty one). Then the record is classified: the
  loop body appends its entry to the bucket of its Tier tag, "web" without a Tier tag,
  and the display name of the entry is the placeholder "(unnamed)", which is not
  empty; when \<^verbatim>\<open>get_instances\<close> returns, the entry is in that bucket of the result.
\<close>

theorem unnamed_instance_placeholder:
  assumes "describes w ''describe-instances'' ''Reservations'' (rs @ r # rs')"
    and "reservation_lists r (xs @ inst # ys)"
    and "in_scope vpc_ids (dict_get inst ''VpcId'' JNull)"
    and "has_tags inst pairs"
    and "(case tag_value pairs ''Name'' of None \<Rightarrow> JStr [] | Some v \<Rightarrow> v) = JStr []"
    and "(case tag_value pairs ''Tier'' of None \<Rightarrow> JStr ''web'' | Some v \<Rightarrow> v) = JStr tier"
    and "instance_fields inst e"
  shows "(\<forall>d l. d tier = Some l \<longrightarrow>
            get_instances_body vpc_ids inst d
              = Inr (d(tier \<mapsto> l @ [e\<lparr>instance_name := JStr ''(unnamed)''\<rparr>])))
    \<and> (\<forall>b. get_instances w vpc_ids = Inr b \<and> tier \<in> {''web'', ''app''} \<longrightarrow>
          (\<exists>l l'. b tier = Some (l @ e\<lparr>instance_name := JStr ''(unnamed)''\<rparr> # l')))
    \<and> (tag_value pairs ''Tier'' = None \<longrightarrow> tier = ''web'')
    \<and> truthy (JStr ''(unnamed)'')"
proof -
  have t: "spec_instance_tier [] (tag_value pairs ''Tier'') = JStr tier"
    using assms(6) by (simp add: spec_instance_tier_def str_lower_def split: option.splits)
  have step: "get_instances_body vpc_ids inst d
      = Inr (d(tier \<mapsto> l @ [e\<lparr>instance_name := JStr ''(unnamed)''\<rparr>]))"
    if "d tier = Some l" for d l
    using get_instances_body_append [where d = d and l = l, OF assms(3-5) t assms(7) that]
    by (simp add: display_name_def)
  have "\<exists>l l'. b tier = Some (l @ e\<lparr>instance_name := JStr ''(unnamed)''\<rparr> # l')"
    if "get_instances w vpc_ids = Inr b \<and> tier \<in> {''web'', ''app''}" for b
  proof (rule get_instances_member [OF _ assms(1,2)])
    show "get_instances w vpc_ids = Inr b" using that by simp
    show "\<And>t l. t tier = Some l \<Longrightarrow> get_instances_body vpc_ids inst t
        = Inr (t(tier \<mapsto> l @ [e\<lparr>instance_name := JStr ''(unnamed)''\<rparr>]))"
      by (rule step)
    show "instances_init tier = Some []"
      using that by (auto simp: instances_init_def)
  qed
  moreover have "tag_value pairs ''Tier'' = None \<longrightarrow> tier = ''web''"
    using assms(6) by auto
  ultimately show ?thesis
    using step by simp
qed

theorem unnamed_instance_placeholder_witness:
  "get_instances (world_of [instances_doc [bare_instance]]) None
     = Inr (instances_init(''web'' \<mapsto> [bare_instance_entry]))
   \<and> (\<exists>l l'. (instances_init(''web'' \<mapsto> [bare_instance_entry])) ''web''
         = Some (l @ bare_instance_entry # l'))
   \<and> instance_name bare_instance_entry = JStr ''(unnamed)''"
proof -
  let ?w = "world_of [instances_doc [bare_instance]]"
  have d: "describes ?w ''describe-instances'' ''Reservations''
             ([] @ JObj [(''Instances'', JList [bare_instance])] # [])"
    by (simp add: eval_world)
  have r: "reservation_lists (JObj [(''Instances'', JList [bare_instance])]) ([] @ bare_instance # [])"
    by (simp add: reservation_lists_def)
  have s: "in_scope None (dict_get bare_instance ''VpcId'' JNull)"
    by (simp add: in_scope_def out_of_scope_def)
  have t: "has_tags bare_instance []"
    by (simp add: has_tags_def bare_instance_def)
  have n: "(case tag_value [] ''Name'' of None \<Rightarrow> JStr [] | Some v \<Rightarrow> v) = JStr []"
      "(case tag_value [] ''Tier'' of None \<Rightarrow> JStr ''web'' | Some v \<Rightarrow> v) = JStr ''web''"
    by (simp_all add: tag_value_def)
  have f: "instance_fields bare_instance bare_instance_entry"
    by (simp add: instance_fields_def bare_instance_def bare_instance_entry_def
        instance_state_name_def)
  have e: "get_instances ?w None = Inr (instances_init(''web'' \<mapsto> [bare_instance_entry]))"
    by (simp add: eval_world eval_instances bare_instance_def bare_instance_entry_def)
  have u: "bare_instance_entry\<lparr>instance_name := JStr ''(unnamed)''\<rparr> = bare_instance_entry"
    by (simp add: bare_instance_entry_def)
  from unnamed_instance_placeholder [OF d r s t n f] e u
  have "\<exists>l l'. (instances_init(''web'' \<mapsto> [bare_instance_entry])) ''web''
         = Some (l @ bare_instance_entry # l')"
    by simp
  with e show ?thesis
    by (simp add: bare_instance_entry_def)
qed

section \<open>Claim C10: an instance without a VpcId\<close>

text \<open>
  Claim C10. Take an instance record of the inventory that carries no \<^verbatim>\<open>VpcId\<close> attribute.
  Under a restricted scope (a non-empty list of VPC identifiers, none of them \<^verbatim>\<open>None\<close>)
  \<^verbatim>\<open>get_instances\<close> returns what it returns for the inventory without the record,
  whatever the record's tags. Under the unrestricted scope the same record, with
  well-formed tags, is classified: the loop body appends its entry to the bucket of its
  tier, and the entry is in that bucket of the result when the tier is "web" or "app".
\<close>

theorem instance_without_vpc:
  assumes "describes w ''describe-instances'' ''Reservations'' (rs @ r # rs')"
    and "reservation_lists r (xs @ inst # ys)"
    and "inst = JObj kvs" and "map_of kvs ''VpcId'' = None"
  shows "(ids \<noteq> [] \<and> JNull \<notin> set ids
          \<and> describes w' ''describe-instances'' ''Reservations'' (rs @ r' # rs')
          \<and> reservation_lists r' (xs @ ys)
        \<longrightarrow> get_instances w (Some ids) = get_instances w' (Some ids))
    \<and> (has_tags inst pairs
          \<and> (case tag_value pairs ''Name'' of None \<Rightarrow> JStr [] | Some v \<Rightarrow> v) = JStr name
          \<and> spec_instance_tier name (tag_value pairs ''Tier'') = JStr tier
          \<and> instance_fields inst e
        \<longrightarrow> (\<forall>d l. d tier = Some l \<longrightarrow>
                get_instances_body None inst d
                  = Inr (d(tier \<mapsto> l @ [e\<lparr>instance_name := display_name name\<rparr>])))
            \<and> (\<forall>b. get_instances w None = Inr b \<and> tier \<in> {''web'', ''app''} \<longrightarrow>
                  (\<exists>l l'. b tier = Some (l @ e\<lparr>instance_name := display_name name\<rparr> # l'))))"
proof (intro conjI impI)
  assume a: "ids \<noteq> [] \<and> JNull \<notin> set ids
          \<and> describes w' ''describe-instances'' ''Reservations'' (rs @ r' # rs')
          \<and> reservation_lists r' (xs @ ys)"
  show "get_instances w (Some ids) = get_instances w' (Some ids)"
  proof (rule get_instances_remove [OF assms(1) _ assms(2)])
    show "describes w' ''describe-instances'' ''Reservations'' (rs @ r' # rs')" using a by simp
    show "reservation_lists r' (xs @ ys)" using a by simp
    fix d :: "string \<rightharpoonup> instance_entry list"
    show "get_instances_body (Some ids) inst d = Inr d"
      using a assms(3,4) by (simp add: get_instances_body_def out_of_scope_def py_in_JNull)
  qed
next
  assume a: "has_tags inst pairs
          \<and> (case tag_value pairs ''Name'' of None \<Rightarrow> JStr [] | Some v \<Rightarrow> v) = JStr name
          \<and> spec_instance_tier name (tag_value pairs ''Tier'') = JStr tier
          \<and> instance_fields inst e"
  have s: "in_scope None (dict_get inst ''VpcId'' JNull)"
    by (simp add: in_scope_def out_of_scope_def)
  have step: "get_instances_body None inst d
      = Inr (d(tier \<mapsto> l @ [e\<lparr>instance_name := display_name name\<rparr>]))"
    if "d tier = Some l" for d l
    using a that
    by (intro get_instances_body_append [where d = d and l = l and pairs = pairs, OF s]) simp_all
  have mem: "\<exists>l l'. b tier = Some (l @ e\<lparr>instance_name := display_name name\<rparr> # l')"
    if "get_instances w None = Inr b \<and> tier \<in> {''web'', ''app''}" for b
  proof (rule get_instances_member [OF _ assms(1,2)])
    show "get_instances w None = Inr b" using that by simp
    show "\<And>t l. t tier = Some l \<Longrightarrow> get_instances_body None inst t
        = Inr (t(tier \<mapsto> l @ [e\<lparr>instance_name := display_name name\<rparr>]))"
      by (rule step)
    show "instances_init tier = Some []"
      using that by (auto simp: instances_init_def)
  qed
  show "\<forall>d l. d tier = Some l \<longrightarrow>
          get_instances_body None inst d
            = Inr (d(tier \<mapsto> l @ [e\<lparr>instance_name := display_name name\<rparr>]))"
    using step by simp
  show "\<forall>b. get_instances w None = Inr b \<and> tier \<in> {''web'', ''app''} \<longrightarrow>
          (\<exists>l l'. b tier = Some (l @ e\<lparr>instance_name := display_name name\<rparr> # l'))"
    using mem by simp
qed

theorem instance_without_vpc_witness:
  "get_instances (world_of [instances_doc [old_instance]]) (Some [JStr ''vpc-1'']) = Inr instances_init
   \<and> get_instances (world_of [instances_doc [old_instance]]) None
       = Inr (instances_init(''web'' \<mapsto> [old_instance_entry]))
   \<and> (\<exists>l l'. (instances_init(''web'' \<mapsto> [old_instance_entry])) ''web''
         = Some (l @ old_instance_entry # l'))"
proof -
  let ?w = "world_of [instances_doc [old_instance]]"
  let ?w' = "world_of [instances_doc []]"
  let ?fields = "[(''InstanceId'', JStr ''i-9''), (''InstanceType'', JStr ''t2.nano''),
           (''State'', JObj [(''Name'', JStr ''terminated'')]),
           (''Tags'', JList [tag ''Name'' (JStr ''web-old'')])]"
  let ?pairs = "[(''Name'', JStr ''web-old'')]"
  have d: "describes ?w ''describe-instances'' ''Reservations''
             ([] @ JObj [(''Instances'', JList [old_instance])] # [])"
    by (simp add: eval_world)
  have r: "reservation_lists (JObj [(''Instances'', JList [old_instance])]) ([] @ old_instance # [])"
    by (simp add: reservation_lists_def)
  have i: "old_instance = JObj ?fields" "map_of ?fields ''VpcId'' = None"
    by (simp_all add: old_instance_def)
  have d': "describes ?w' ''describe-instances'' ''Reservations''
             ([] @ JObj [(''Instances'', JList [])] # [])"
    by (simp add: eval_world)
  have r': "reservation_lists (JObj [(''Instances'', JList [])]) ([] @ [])"
    by (simp add: reservation_lists_def)
  have e': "get_instances ?w' (Some [JStr ''vpc-1'']) = Inr instances_init"
    by (simp add: eval_world eval_instances)
  have t: "has_tags old_instance ?pairs"
      "(case tag_value ?pairs ''Name'' of None \<Rightarrow> JStr [] | Some v \<Rightarrow> v) = JStr ''web-old''"
      "spec_instance_tier ''web-old'' (tag_value ?pairs ''Tier'') = JStr ''web''"
    by (simp_all add: has_tags_def tag_value_def old_instance_def spec_instance_tier_def
        str_lower_def lower_char_def)
  have f: "instance_fields old_instance old_instance_entry"
    by (simp add: instance_fields_def old_instance_def old_instance_entry_def
        instance_state_name_def)
  have e: "get_instances ?w None = Inr (instances_init(''web'' \<mapsto> [old_instance_entry]))"
    by (simp add: eval_world eval_instances old_instance_def old_instance_entry_def)
  have u: "old_instance_entry\<lparr>instance_name := display_name ''web-old''\<rparr> = old_instance_entry"
    by (simp add: old_instance_entry_def display_name_def)
  note c = instance_without_vpc [OF d r i, where ids = "[JStr ''vpc-1'']" and w' = ?w'
      and r' = "JObj [(''Instances'', JList [])]" and pairs = ?pairs and name = "''web-old''"
      and tier = "''web''" and e = old_instance_entry]
  have a: "get_instances ?w (Some [JStr ''vpc-1'']) = get_instances ?w' (Some [JStr ''vpc-1''])"
    using c d' r' by simp
  have b: "\<exists>l l'. (instances_init(''web'' \<mapsto> [old_instance_entry])) ''web''
         = Some (l @ old_instance_entry # l')"
    using c t f e u by simp
  show ?thesis
    using a b e e' by simp
qed

end
